theory Spec2Isabelle
  imports Complex_Main "HOL-Library.Word" "HOL-Library.AList"
begin

unbundle bit_operations_syntax

section \<open>The Outline effect of libopenshot (src/effects/Outline.cpp)\<close>

text \<open>
  The effect draws an outline around the opaque part of a frame's image. Its code is a
  straight line of calls into OpenCV (\<^verbatim>\<open>cv::split\<close>, \<^verbatim>\<open>cv::GaussianBlur\<close>,
  \<^verbatim>\<open>cv::threshold\<close>, \<^verbatim>\<open>cv::Canny\<close>, \<^verbatim>\<open>cv::bitwise_or\<close>, \<^verbatim>\<open>cv::Mat::copyTo\<close>), Qt
  (\<^verbatim>\<open>QImage\<close>), JsonCpp (\<^verbatim>\<open>Json::Value\<close>) and libopenshot's own \<^verbatim>\<open>Keyframe\<close>,
  \<^verbatim>\<open>EffectBase\<close> and \<^verbatim>\<open>stringToJson\<close>, none of which is part of Outline.cpp.

  \<^item> The discrete library calls are embedded after the libraries' documented behaviour
    (OpenCV 4, Qt 5/6 on a little-endian machine, JsonCpp with exceptions).
  \<^item> The filter arithmetic of \<^verbatim>\<open>cv::GaussianBlur\<close> and \<^verbatim>\<open>cv::Canny\<close> (fixed and floating
    point) is a parameter of the model: a function giving the value of each output element.
  \<^item> \<^verbatim>\<open>Keyframe\<close>, \<^verbatim>\<open>EffectBase\<close> and \<^verbatim>\<open>stringToJson\<close> are parameters as well.
  \<^item> A C++ \<^verbatim>\<open>double\<close> is a \<^typ>\<open>real\<close>, an \<^verbatim>\<open>int\<close> an \<^typ>\<open>int\<close>; a conversion from
    \<^verbatim>\<open>double\<close> to \<^verbatim>\<open>int\<close> whose value does not fit is undefined in C++ and an
    error of the model.
\<close>

subsection \<open>Errors\<close>

datatype error =
    CvException string
  | UndefinedBehaviour string
  | JsonLogicError string
  | InvalidJSON string
  | OtherException string

definition bindE :: "'e + 'a \<Rightarrow> ('a \<Rightarrow> 'e + 'b) \<Rightarrow> 'e + 'b" where
  "bindE m f = (case m of Inl e \<Rightarrow> Inl e | Inr x \<Rightarrow> f x)"

subsection \<open>Scalars\<close>

text \<open>
  \<^verbatim>\<open>int redValue = red.GetValue(frame_number);\<close> is the implicit conversion of a
  \<^verbatim>\<open>double\<close> to an \<^verbatim>\<open>int\<close>: the fractional part is discarded (truncation toward zero).
\<close>

definition double_to_int :: "real \<Rightarrow> error + int" where
  "double_to_int d =
     (if - 2147483649 < d \<and> d < 2147483648
      then Inr (if 0 \<le> d then \<lfloor>d\<rfloor> else \<lceil>d\<rceil>)
      else Inl (UndefinedBehaviour ''double to int conversion out of range''))"

text \<open>\<^verbatim>\<open>cvRound\<close>: the nearest integer, a tie going to the even one.\<close>

definition cvRound :: "real \<Rightarrow> int" where
  "cvRound x =
     (let f = \<lfloor>x\<rfloor> in
      if x - of_int f < 1 / 2 then f
      else if 1 / 2 < x - of_int f then f + 1
      else if even f then f else f + 1)"

type_synonym uchar = "8 word"

text \<open>\<^verbatim>\<open>cv::saturate_cast<uchar>\<close> of an integer value.\<close>

definition saturate_cast_uchar :: "int \<Rightarrow> uchar" where
  "saturate_cast_uchar v = (if v < 0 then 0 else if 255 < v then 255 else word_of_int v)"

subsection \<open>Matrices and images\<close>

text \<open>
  A \<^verbatim>\<open>cv::Mat\<close> of two dimensions, its elements in row-major order. An element of a
  \<^verbatim>\<open>CV_8UC4\<close> matrix is four bytes in memory order, of a \<^verbatim>\<open>CV_8UC1\<close> matrix one byte.
\<close>

type_synonym Vec4b = "uchar \<times> uchar \<times> uchar \<times> uchar"

record 'a Mat =
  rows :: nat
  cols :: nat
  elems :: "'a list"

definition Mat_wf :: "'a Mat \<Rightarrow> bool" where
  "Mat_wf m = (length (elems m) = rows m * cols m)"

text \<open>\<^verbatim>\<open>cv::Mat::empty()\<close>: no element. A default-constructed \<^verbatim>\<open>cv::Mat\<close> is \<open>Mat_blank\<close>.\<close>

definition Mat_empty :: "'a Mat \<Rightarrow> bool" where
  "Mat_empty m = (rows m * cols m = 0)"

definition Mat_blank :: "'a Mat" where
  "Mat_blank = \<lparr>rows = 0, cols = 0, elems = []\<rparr>"

text \<open>
  A \<^verbatim>\<open>QImage\<close> of a 32-bit format: its size and its pixels, each the four bytes the image
  holds for it, in memory order.
\<close>

record QImage =
  qwidth :: nat
  qheight :: nat
  bits :: "Vec4b list"

definition QImage_wf :: "QImage \<Rightarrow> bool" where
  "QImage_wf q = (length (bits q) = qheight q * qwidth q)"

subsection \<open>The filters left as parameters\<close>

text \<open>
  \<open>gaussian kw kh sigma1 sigma2 src i\<close> is element \<open>i\<close> of \<open>src\<close> filtered with a Gaussian
  kernel of \<open>kw\<close> by \<open>kh\<close> taps; \<open>canny t1 t2 src i\<close> is element \<open>i\<close> of the edge map of
  \<open>src\<close> for the thresholds \<open>t1\<close> and \<open>t2\<close>.
\<close>

record cv_filters =
  gaussian :: "int \<Rightarrow> int \<Rightarrow> real \<Rightarrow> real \<Rightarrow> uchar Mat \<Rightarrow> nat \<Rightarrow> uchar"
  canny :: "real \<Rightarrow> real \<Rightarrow> uchar Mat \<Rightarrow> nat \<Rightarrow> uchar"

subsection \<open>OpenCV calls\<close>

text \<open>
  \<^verbatim>\<open>cv::split(m, mv)\<close>: one single-channel matrix for each channel of \<open>m\<close>. For an empty
  \<open>m\<close> the output vector is released, so it has no element at all.
\<close>

definition channel :: "nat \<Rightarrow> Vec4b \<Rightarrow> uchar" where
  "channel k p =
     (case p of (c0, c1, c2, c3) \<Rightarrow>
        if k = 0 then c0 else if k = 1 then c1 else if k = 2 then c2 else c3)"

definition split :: "Vec4b Mat \<Rightarrow> uchar Mat list" where
  "split m =
     (if Mat_empty m then []
      else map (\<lambda>k. \<lparr>rows = rows m, cols = cols m, elems = map (channel k) (elems m)\<rparr>)
             [0, 1, 2, 3])"

text \<open>\<^verbatim>\<open>channels[3]\<close> on a \<^verbatim>\<open>std::vector\<close>: undefined when the index is out of range.\<close>

definition vector_at :: "'a list \<Rightarrow> nat \<Rightarrow> error + 'a" where
  "vector_at v i =
     (if i < length v then Inr (v ! i)
      else Inl (UndefinedBehaviour ''std::vector index out of range''))"

text \<open>
  \<^verbatim>\<open>cv::GaussianBlur(src, dst, ksize, sigma1, sigma2, BORDER_DEFAULT)\<close>, for a source that is
  not a submatrix:
  \<^item> an empty source fails the assertion \<^verbatim>\<open>!_src.empty()\<close>;
  \<^item> \<open>dst\<close> is created with the size and type of \<open>src\<close>;
  \<^item> a dimension of size 1 needs a kernel of size 1 in that direction, and a kernel of
    1 by 1 copies the source;
  \<^item> a kernel size that is not positive is computed from a positive sigma
    (\<^verbatim>\<open>cvRound(sigma*3*2 + 1) | 1\<close> for 8-bit data), a sigma2 that is not positive is sigma1;
  \<^item> the kernel sizes must then be positive and odd (\<^verbatim>\<open>CV_Assert\<close> in
    \<^verbatim>\<open>createGaussianKernels\<close>): with \<^verbatim>\<open>ksize = Size(0, 0)\<close> and a sigma that is not
    positive no size can be computed and the call throws \<^verbatim>\<open>cv::Exception\<close>.
\<close>

definition GaussianBlur ::
  "cv_filters \<Rightarrow> uchar Mat \<Rightarrow> int \<times> int \<Rightarrow> real \<Rightarrow> real \<Rightarrow> error + uchar Mat" where
  "GaussianBlur K src ksize sigma1 sigma2 =
     (if Mat_empty src then Inl (CvException ''!_src.empty()'')
      else
        let kw1 = (if cols src = 1 then 1 else fst ksize);
            kh1 = (if rows src = 1 then 1 else snd ksize)
        in
        if kw1 = 1 \<and> kh1 = 1 then Inr src
        else
          let s2 = (if sigma2 \<le> 0 then sigma1 else sigma2);
              kw = (if kw1 \<le> 0 \<and> 0 < sigma1 then cvRound (sigma1 * 3 * 2 + 1) OR 1 else kw1);
              kh = (if kh1 \<le> 0 \<and> 0 < s2 then cvRound (s2 * 3 * 2 + 1) OR 1 else kh1)
          in
          if 0 < kw \<and> kw mod 2 = 1 \<and> 0 < kh \<and> kh mod 2 = 1
          then Inr \<lparr>rows = rows src, cols = cols src,
                    elems = map (gaussian K kw kh sigma1 s2 src) [0..<rows src * cols src]\<rparr>
          else Inl (CvException
                 ''ksize.width > 0 && ksize.width % 2 == 1 && ksize.height > 0 && ksize.height % 2 == 1''))"

text \<open>
  \<^verbatim>\<open>cv::threshold(src, dst, thresh, maxval, THRESH_BINARY)\<close> on 8-bit data: an element
  greater than \<open>thresh\<close> becomes \<open>maxval\<close> (saturated to a byte), every other one 0.
\<close>

definition threshold :: "uchar Mat \<Rightarrow> int \<Rightarrow> int \<Rightarrow> uchar Mat" where
  "threshold src thresh maxval =
     \<lparr>rows = rows src, cols = cols src,
      elems = map (\<lambda>x. if thresh < uint x then saturate_cast_uchar maxval else 0) (elems src)\<rparr>"

text \<open>\<^verbatim>\<open>cv::Canny(image, edges, threshold1, threshold2)\<close>: an edge map of the size of the image.\<close>

definition Canny :: "cv_filters \<Rightarrow> uchar Mat \<Rightarrow> real \<Rightarrow> real \<Rightarrow> uchar Mat" where
  "Canny K img threshold1 threshold2 =
     \<lparr>rows = rows img, cols = cols img,
      elems = map (canny K threshold1 threshold2 img) [0..<rows img * cols img]\<rparr>"

text \<open>\<^verbatim>\<open>cv::bitwise_or(src1, src2, dst)\<close>: element-wise disjunction of two matrices of one size.\<close>

definition bitwise_or :: "uchar Mat \<Rightarrow> uchar Mat \<Rightarrow> error + uchar Mat" where
  "bitwise_or src1 src2 =
     (if rows src1 = rows src2 \<and> cols src1 = cols src2
      then Inr \<lparr>rows = rows src1, cols = cols src1,
                elems = map (\<lambda>(a, b). a OR b) (zip (elems src1) (elems src2))\<rparr>
      else Inl (CvException ''The operation is neither array op array nor array op scalar''))"

text \<open>
  \<^verbatim>\<open>cv::Mat(Size(cols, rows), CV_8UC4, cv::Scalar(v0, v1, v2, v3))\<close>: every element is the
  scalar as \<^verbatim>\<open>scalarToRawData\<close> writes it, each component saturated to a byte.
\<close>

definition scalarToRawData :: "int \<times> int \<times> int \<times> int \<Rightarrow> Vec4b" where
  "scalarToRawData s =
     (case s of (v0, v1, v2, v3) \<Rightarrow>
        (saturate_cast_uchar v0, saturate_cast_uchar v1,
         saturate_cast_uchar v2, saturate_cast_uchar v3))"

definition Mat_Scalar :: "nat \<Rightarrow> nat \<Rightarrow> int \<times> int \<times> int \<times> int \<Rightarrow> Vec4b Mat" where
  "Mat_Scalar r c s = \<lparr>rows = r, cols = c, elems = replicate (r * c) (scalarToRawData s)\<rparr>"

text \<open>
  \<^verbatim>\<open>src.copyTo(dst, mask)\<close>: the elements of \<open>src\<close> where \<open>msk\<close> is not zero are copied
  to \<open>dst\<close>, the other elements of \<open>dst\<close> stay. A \<open>dst\<close> of another size is allocated
  anew, all zeros, before the copy. The mask \<open>msk\<close> has the size of \<open>src\<close> (\<^verbatim>\<open>CV_Assert\<close>);
  a mask without data makes the call a plain copy.
\<close>

definition zero4 :: Vec4b where
  "zero4 = (0, 0, 0, 0)"

definition copyTo :: "Vec4b Mat \<Rightarrow> Vec4b Mat \<Rightarrow> uchar Mat \<Rightarrow> error + Vec4b Mat" where
  "copyTo src dst msk =
     (if Mat_empty msk then Inr (if Mat_empty src then Mat_blank else src)
      else if rows src \<noteq> rows msk \<or> cols src \<noteq> cols msk
      then Inl (CvException ''size() == mask.size()'')
      else
        let dst0 = (if rows dst = rows src \<and> cols dst = cols src then elems dst
                    else replicate (rows src * cols src) zero4)
        in Inr \<lparr>rows = rows src, cols = cols src,
                elems = map (\<lambda>(m, s, d). if m \<noteq> 0 then s else d)
                          (zip (elems msk) (zip (elems src) dst0))\<rparr>)"

subsection \<open>Between QImage and cv::Mat\<close>

text \<open>
  \<^verbatim>\<open>QImageToBGRACvMat\<close>: a \<^verbatim>\<open>CV_8UC4\<close> matrix over the bytes of the image, as they are.
\<close>

definition QImageToBGRACvMat :: "QImage \<Rightarrow> Vec4b Mat" where
  "QImageToBGRACvMat qimage =
     \<lparr>rows = qheight qimage, cols = qwidth qimage, elems = bits qimage\<rparr>"

text \<open>
  \<^verbatim>\<open>qPremultiply\<close>, for one colour byte \<open>c\<close> and the alpha byte \<open>a\<close>:
  \<^verbatim>\<open>t = c * a; (t + (t >> 8) + 0x80) >> 8\<close>.
\<close>

definition qPremultiply :: "uchar \<Rightarrow> uchar \<Rightarrow> uchar" where
  "qPremultiply c a =
     (let t = unat c * unat a in word_of_nat ((t + t div 256 + 128) div 256))"

text \<open>
  \<^verbatim>\<open>BGRACvMatToQImage\<close>: the bytes of the matrix are read as \<^verbatim>\<open>QImage::Format_ARGB32\<close>
  (blue, green, red, alpha in memory) and converted to
  \<^verbatim>\<open>QImage::Format_RGBA8888_Premultiplied\<close> (red, green, blue, alpha in memory, the colours
  multiplied by alpha).
\<close>

definition ARGB32_to_RGBA8888_Premultiplied :: "Vec4b \<Rightarrow> Vec4b" where
  "ARGB32_to_RGBA8888_Premultiplied p =
     (case p of (b, g, r, a) \<Rightarrow> (qPremultiply r a, qPremultiply g a, qPremultiply b a, a))"

definition BGRACvMatToQImage :: "Vec4b Mat \<Rightarrow> QImage" where
  "BGRACvMatToQImage img =
     \<lparr>qwidth = cols img, qheight = rows img,
      bits = map ARGB32_to_RGBA8888_Premultiplied (elems img)\<rparr>"

subsection \<open>JsonCpp values\<close>

datatype Json =
    nullValue
  | booleanValue bool
  | intValue int
  | realValue real
  | stringValue string
  | arrayValue "Json list"
  | objectValue "(string \<times> Json) list"

definition isNull :: "Json \<Rightarrow> bool" where
  "isNull v = (v = nullValue)"

text \<open>
  \<^verbatim>\<open>root[key]\<close> on a \<^verbatim>\<open>const Json::Value\<close>: the member, or null when the object has no
  such member or the value itself is null; a value of any other type throws
  \<^verbatim>\<open>Json::LogicError\<close>.
\<close>

definition Json_get :: "Json \<Rightarrow> string \<Rightarrow> error + Json" where
  "Json_get jroot key =
     (case jroot of
        nullValue \<Rightarrow> Inr nullValue
      | objectValue ms \<Rightarrow> Inr (case map_of ms key of None \<Rightarrow> nullValue | Some v \<Rightarrow> v)
      | _ \<Rightarrow> Inl (JsonLogicError ''requires objectValue''))"

text \<open>\<^verbatim>\<open>root[key] = v\<close>: a null value becomes an object; the member is added or replaced.\<close>

definition Json_set :: "Json \<Rightarrow> string \<Rightarrow> Json \<Rightarrow> error + Json" where
  "Json_set jroot key v =
     (case jroot of
        nullValue \<Rightarrow> Inr (objectValue [(key, v)])
      | objectValue ms \<Rightarrow> Inr (objectValue (AList.update key v ms))
      | _ \<Rightarrow> Inl (JsonLogicError ''requires objectValue''))"

subsection \<open>The collaborators left as parameters\<close>

text \<open>
  \<open>'k\<close> is the state of a \<^verbatim>\<open>Keyframe\<close>, \<open>'b\<close> the state of the \<^verbatim>\<open>EffectBase\<close> part of
  the effect. A call that mutates returns the exception it threw, if any, and the state
  it left behind. \<^verbatim>\<open>stringToJson\<close> returns the parsed document or throws.
\<close>

record ('k, 'b) collaborators =
  GetValue :: "'k \<Rightarrow> int \<Rightarrow> real"
  Keyframe_double :: "real \<Rightarrow> 'k"
  Keyframe_JsonValue :: "'k \<Rightarrow> Json"
  Keyframe_SetJsonValue :: "Json \<Rightarrow> 'k \<Rightarrow> error option \<times> 'k"
  EffectBase_JsonValue :: "'b \<Rightarrow> Json"
  EffectBase_SetJsonValue :: "Json \<Rightarrow> 'b \<Rightarrow> error option \<times> 'b"
  class_name :: "'b \<Rightarrow> string"
  stringToJson :: "string \<Rightarrow> error + Json"

subsection \<open>The effect\<close>

record ('k, 'b) Outline =
  base :: 'b
  width :: 'k
  red :: 'k
  green :: 'k
  blue :: 'k
  alpha :: 'k

text \<open>
  \<^verbatim>\<open>Outline::Outline() : width(3.0), red(0.0), green(0.0), blue(0.0), alpha(255.0)\<close>;
  \<open>b\<close> is the \<^verbatim>\<open>EffectBase\<close> part as \<^verbatim>\<open>init_effect_details\<close> leaves it.
\<close>

definition Outline_blank :: "('k, 'b) collaborators \<Rightarrow> 'b \<Rightarrow> ('k, 'b) Outline" where
  "Outline_blank C b =
     \<lparr>base = b, width = Keyframe_double C 3, red = Keyframe_double C 0,
      green = Keyframe_double C 0, blue = Keyframe_double C 0,
      alpha = Keyframe_double C 255\<rparr>"

subsection \<open>Outline::GetFrame\<close>

text \<open>
  Lines 73 and 74, the dilated mask:
  \<^verbatim>\<open>cv::GaussianBlur(alpha_mask, outline_mask, cv::Size(0, 0), sigmaValue, sigmaValue, ...);\<close>
  \<^verbatim>\<open>cv::threshold(outline_mask, outline_mask, 0, 255, cv::ThresholdTypes::THRESH_BINARY);\<close>
\<close>

definition MaskDilator :: "cv_filters \<Rightarrow> uchar Mat \<Rightarrow> int \<Rightarrow> error + uchar Mat" where
  "MaskDilator K alpha_mask sigmaValue =
     bindE (GaussianBlur K alpha_mask (0, 0) (of_int sigmaValue) (of_int sigmaValue))
       (\<lambda>outline_mask. Inr (threshold outline_mask 0 255))"

text \<open>
  Lines 78 to 87, the final compositing mask:
  \<^verbatim>\<open>cv::Canny(outline_mask, edge_mask, 250, 255);\<close>
  \<^verbatim>\<open>cv::GaussianBlur(edge_mask, blurred_edge_mask, cv::Size(0, 0), 0.8, 0.8, ...);\<close>
  \<^verbatim>\<open>cv::bitwise_or(outline_mask, blurred_edge_mask, outline_mask);\<close>
\<close>

definition EdgeRefiner :: "cv_filters \<Rightarrow> uchar Mat \<Rightarrow> error + uchar Mat" where
  "EdgeRefiner K outline_mask =
     (let edge_mask = Canny K outline_mask 250 255 in
      bindE (GaussianBlur K edge_mask (0, 0) (8 / 10) (8 / 10))
        (\<lambda>blurred_edge_mask. bitwise_or outline_mask blurred_edge_mask))"

text \<open>
  Lines 89 to 96, the two masked copies into the default-constructed \<^verbatim>\<open>final_image\<close>:
  \<^verbatim>\<open>cv::Mat solid_color_mat(cv::Size(cv_image.cols, cv_image.rows), CV_8UC4,\<close>
  \<^verbatim>\<open>    cv::Scalar(blueValue, greenValue, redValue, alphaValue));\<close>
  \<^verbatim>\<open>solid_color_mat.copyTo(final_image, outline_mask);\<close>
  \<^verbatim>\<open>cv_image.copyTo(final_image, alpha_mask);\<close>
\<close>

definition Compositor ::
  "Vec4b Mat \<Rightarrow> uchar Mat \<Rightarrow> uchar Mat \<Rightarrow> int \<times> int \<times> int \<times> int \<Rightarrow> error + Vec4b Mat" where
  "Compositor cv_image alpha_mask outline_mask colour =
     (let solid_color_mat = Mat_Scalar (rows cv_image) (cols cv_image) colour in
      bindE (copyTo solid_color_mat Mat_blank outline_mask)
        (\<lambda>final_image. copyTo cv_image final_image alpha_mask))"

text \<open>
  The whole of \<^verbatim>\<open>Outline::GetFrame(frame, frame_number)\<close>, on the image of the frame. The
  result is the image the frame holds afterwards; when the call throws, the frame keeps
  the image it had.
\<close>

definition GetFrame ::
  "('k, 'b) collaborators \<Rightarrow> cv_filters \<Rightarrow> ('k, 'b) Outline \<Rightarrow> QImage \<Rightarrow> int \<Rightarrow> error + QImage" where
  "GetFrame C K self frame_image frame_number =
     bindE (double_to_int (GetValue C (width self) frame_number / 3)) (\<lambda>sigmaValue.
     bindE (double_to_int (GetValue C (red self) frame_number)) (\<lambda>redValue.
     bindE (double_to_int (GetValue C (green self) frame_number)) (\<lambda>greenValue.
     bindE (double_to_int (GetValue C (blue self) frame_number)) (\<lambda>blueValue.
     bindE (double_to_int (GetValue C (alpha self) frame_number)) (\<lambda>alphaValue.
     let cv_image = QImageToBGRACvMat frame_image in
     bindE (vector_at (split cv_image) 3) (\<lambda>alpha_mask.
     bindE (MaskDilator K alpha_mask sigmaValue) (\<lambda>outline_mask.
     bindE (EdgeRefiner K outline_mask) (\<lambda>outline_mask.
     bindE (Compositor cv_image alpha_mask outline_mask
              (blueValue, greenValue, redValue, alphaValue)) (\<lambda>final_image.
     Inr (BGRACvMatToQImage final_image))))))))))"

subsection \<open>Outline::JsonValue, Outline::SetJsonValue, Outline::SetJson\<close>

definition JsonValue :: "('k, 'b) collaborators \<Rightarrow> ('k, 'b) Outline \<Rightarrow> error + Json" where
  "JsonValue C self =
     bindE (Json_set (EffectBase_JsonValue C (base self)) ''type''
              (stringValue (class_name C (base self)))) (\<lambda>jroot.
     bindE (Json_set jroot ''width'' (Keyframe_JsonValue C (width self))) (\<lambda>jroot.
     bindE (Json_set jroot ''red'' (Keyframe_JsonValue C (red self))) (\<lambda>jroot.
     bindE (Json_set jroot ''green'' (Keyframe_JsonValue C (green self))) (\<lambda>jroot.
     bindE (Json_set jroot ''blue'' (Keyframe_JsonValue C (blue self))) (\<lambda>jroot.
     Json_set jroot ''alpha'' (Keyframe_JsonValue C (alpha self)))))))"

text \<open>One statement after the other on the state of the effect; an exception ends the run.\<close>

definition seqS ::
  "('s \<Rightarrow> error option \<times> 's) \<Rightarrow> ('s \<Rightarrow> error option \<times> 's) \<Rightarrow> 's \<Rightarrow> error option \<times> 's" where
  "seqS f g s = (case f s of (None, s') \<Rightarrow> g s' | (Some e, s') \<Rightarrow> (Some e, s'))"

text \<open>\<^verbatim>\<open>EffectBase::SetJsonValue(root);\<close>\<close>

definition set_parent_data ::
  "('k, 'b) collaborators \<Rightarrow> Json \<Rightarrow> ('k, 'b) Outline \<Rightarrow> error option \<times> ('k, 'b) Outline" where
  "set_parent_data C jroot self =
     (case EffectBase_SetJsonValue C jroot (base self) of (r, b) \<Rightarrow> (r, self\<lparr>base := b\<rparr>))"

text \<open>\<^verbatim>\<open>if (!root[key].isNull()) curve.SetJsonValue(root[key]);\<close>\<close>

definition set_if_found ::
  "('k, 'b) collaborators \<Rightarrow> Json \<Rightarrow> string \<Rightarrow> (('k, 'b) Outline \<Rightarrow> 'k) \<Rightarrow>
   ('k \<Rightarrow> ('k, 'b) Outline \<Rightarrow> ('k, 'b) Outline) \<Rightarrow> ('k, 'b) Outline \<Rightarrow>
   error option \<times> ('k, 'b) Outline" where
  "set_if_found C jroot key curve put self =
     (case Json_get jroot key of
        Inl e \<Rightarrow> (Some e, self)
      | Inr v \<Rightarrow>
          if isNull v then (None, self)
          else (case Keyframe_SetJsonValue C v (curve self) of (r, k) \<Rightarrow> (r, put k self)))"

definition SetJsonValue ::
  "('k, 'b) collaborators \<Rightarrow> Json \<Rightarrow> ('k, 'b) Outline \<Rightarrow> error option \<times> ('k, 'b) Outline" where
  "SetJsonValue C jroot =
     seqS (set_parent_data C jroot)
    (seqS (set_if_found C jroot ''width'' width (\<lambda>k s. s\<lparr>width := k\<rparr>))
    (seqS (set_if_found C jroot ''red'' red (\<lambda>k s. s\<lparr>red := k\<rparr>))
    (seqS (set_if_found C jroot ''green'' green (\<lambda>k s. s\<lparr>green := k\<rparr>))
    (seqS (set_if_found C jroot ''blue'' blue (\<lambda>k s. s\<lparr>blue := k\<rparr>))
          (set_if_found C jroot ''alpha'' alpha (\<lambda>k s. s\<lparr>alpha := k\<rparr>))))))"

text \<open>
  \<^verbatim>\<open>Outline::SetJson\<close>: whatever \<^verbatim>\<open>std::exception\<close> the parser or \<^verbatim>\<open>SetJsonValue\<close> throws
  is caught and replaced by \<^verbatim>\<open>InvalidJSON\<close> with a fixed message.
\<close>

definition is_std_exception :: "error \<Rightarrow> bool" where
  "is_std_exception e = (case e of UndefinedBehaviour x \<Rightarrow> False | _ \<Rightarrow> True)"

definition rethrow_InvalidJSON :: "error \<Rightarrow> error" where
  "rethrow_InvalidJSON e =
     (if is_std_exception e
      then InvalidJSON ''JSON is invalid (missing keys or invalid data types)''
      else e)"

definition SetJson ::
  "('k, 'b) collaborators \<Rightarrow> string \<Rightarrow> ('k, 'b) Outline \<Rightarrow> error option \<times> ('k, 'b) Outline" where
  "SetJson C val self =
     (case stringToJson C val of
        Inl e \<Rightarrow> (Some (rethrow_InvalidJSON e), self)
      | Inr jroot \<Rightarrow>
          (case SetJsonValue C jroot self of
             (None, s) \<Rightarrow> (None, s)
           | (Some e, s) \<Rightarrow> (Some (rethrow_InvalidJSON e), s)))"

text \<open>
  What a curve is after \<^verbatim>\<open>if (!root[key].isNull()) curve.SetJsonValue(root[key]);\<close> has run
  on an object with the members \<open>ms\<close>: the curve as it was when the key is absent or
  null, and what \<^verbatim>\<open>Keyframe::SetJsonValue\<close> left otherwise.
\<close>

definition curve_after_load ::
  "('k, 'b) collaborators \<Rightarrow> (string \<times> Json) list \<Rightarrow> string \<Rightarrow> 'k \<Rightarrow> 'k" where
  "curve_after_load C ms key k =
     (case map_of ms key of
        None \<Rightarrow> k
      | Some v \<Rightarrow> if v = nullValue then k else snd (Keyframe_SetJsonValue C v k))"

subsection \<open>Concrete collaborators for evaluating the model\<close>

text \<open>
  Curves that are constant in the frame number, serialized as one number, under an
  \<^verbatim>\<open>EffectBase\<close> without state; the parser knows the empty object only.
\<close>

definition constant_curves :: "(real, unit) collaborators" where
  "constant_curves =
     \<lparr>GetValue = (\<lambda>k n. k),
      Keyframe_double = (\<lambda>x. x),
      Keyframe_JsonValue = realValue,
      Keyframe_SetJsonValue =
        (\<lambda>v k. case v of realValue x \<Rightarrow> (None, x)
                 | _ \<Rightarrow> (Some (JsonLogicError ''not a number''), k)),
      EffectBase_JsonValue = (\<lambda>b. objectValue []),
      EffectBase_SetJsonValue = (\<lambda>v b. (None, b)),
      class_name = (\<lambda>b. ''Outline''),
      stringToJson =
        (\<lambda>s. if s = ''{}'' then Inr (objectValue [])
             else Inl (InvalidJSON ''JSON could not be parsed (or is invalid)''))\<rparr>"

text \<open>
  Filters that spread the largest element of the source over the whole matrix (a blur
  wider than the image) and find no edge.
\<close>

definition spreading_filters :: cv_filters where
  "spreading_filters =
     \<lparr>gaussian = (\<lambda>kw kh sigma1 sigma2 src i. foldr max (elems src) 0),
      canny = (\<lambda>t1 t2 src i. 0)\<rparr>"

text \<open>
  Two images of 2 by 2 pixels: one with a single half-transparent pixel on a transparent
  ground, one opaque everywhere.
\<close>

definition test_image :: QImage where
  "test_image =
     \<lparr>qwidth = 2, qheight = 2,
      bits = [(100, 100, 100, 128), (0, 0, 0, 0), (0, 0, 0, 0), (0, 0, 0, 0)]\<rparr>"

definition opaque_image :: QImage where
  "opaque_image =
     \<lparr>qwidth = 2, qheight = 2,
      bits = [(10, 20, 30, 255), (10, 20, 30, 255), (10, 20, 30, 255), (10, 20, 30, 255)]\<rparr>"

text \<open>An effect with a red outline of width 6.\<close>

definition configured :: "(real, unit) Outline" where
  "configured = \<lparr>base = (), width = 6, red = 255, green = 0, blue = 0, alpha = 255\<rparr>"

section \<open>Basic facts\<close>

lemma bindE_Inl [simp]: "bindE (Inl e) f = Inl e"
  by (simp add: bindE_def)

lemma bindE_Inr [simp]: "bindE (Inr x) f = f x"
  by (simp add: bindE_def)

lemma bindE_eq_Inr: "bindE m f = Inr y \<longleftrightarrow> (\<exists>x. m = Inr x \<and> f x = Inr y)"
  by (cases m) simp_all

subsection \<open>Sizes and elements along the pipeline\<close>

lemma GaussianBlur_Inr:
  assumes "GaussianBlur K src ksize sigma1 sigma2 = Inr dst"
  shows "rows dst = rows src \<and> cols dst = cols src \<and> \<not> Mat_empty src \<and> (Mat_wf src \<longrightarrow> Mat_wf dst)"
  using assms by (auto simp: GaussianBlur_def Let_def Mat_wf_def split: if_splits)

lemma threshold_dims:
  "rows (threshold m t v) = rows m \<and> cols (threshold m t v) = cols m \<and>
   (Mat_wf m \<longrightarrow> Mat_wf (threshold m t v))"
  by (simp add: threshold_def Mat_wf_def)

lemma MaskDilator_Inr:
  assumes "MaskDilator K alpha_mask sigmaValue = Inr m"
  shows "rows m = rows alpha_mask \<and> cols m = cols alpha_mask \<and> \<not> Mat_empty alpha_mask \<and>
         (Mat_wf alpha_mask \<longrightarrow> Mat_wf m)"
proof -
  from assms obtain b where
    b: "GaussianBlur K alpha_mask (0, 0) (of_int sigmaValue) (of_int sigmaValue) = Inr b"
    and m: "m = threshold b 0 255"
    by (auto simp: MaskDilator_def bindE_eq_Inr)
  from GaussianBlur_Inr [OF b] threshold_dims [of b 0 255] m show ?thesis by simp
qed

lemma Canny_dims:
  "rows (Canny K m t1 t2) = rows m \<and> cols (Canny K m t1 t2) = cols m \<and> Mat_wf (Canny K m t1 t2)"
  by (simp add: Canny_def Mat_wf_def)

lemma bitwise_or_Inr:
  assumes "bitwise_or a b = Inr m"
  shows "rows m = rows a \<and> cols m = cols a \<and> (Mat_wf a \<longrightarrow> Mat_wf b \<longrightarrow> Mat_wf m)"
  using assms by (auto simp: bitwise_or_def Mat_wf_def split: if_splits)

lemma EdgeRefiner_Inr:
  assumes "EdgeRefiner K outline_mask = Inr m"
  shows "rows m = rows outline_mask \<and> cols m = cols outline_mask \<and>
         (Mat_wf outline_mask \<longrightarrow> Mat_wf m)"
proof -
  let ?e = "Canny K outline_mask 250 255"
  from assms obtain b where
    b: "GaussianBlur K ?e (0, 0) (8 / 10) (8 / 10) = Inr b"
    and m: "bitwise_or outline_mask b = Inr m"
    by (auto simp: EdgeRefiner_def Let_def bindE_eq_Inr)
  from GaussianBlur_Inr [OF b] Canny_dims [of K outline_mask 250 255]
  have "Mat_wf b" by simp
  with bitwise_or_Inr [OF m] show ?thesis by simp
qed

lemma copyTo_masked:
  assumes "\<not> Mat_empty msk" "rows src = rows msk" "cols src = cols msk"
  shows "copyTo src dst msk =
     Inr \<lparr>rows = rows src, cols = cols src,
          elems = map (\<lambda>(m, s, d). if m \<noteq> 0 then s else d)
                    (zip (elems msk) (zip (elems src)
                       (if rows dst = rows src \<and> cols dst = cols src then elems dst
                        else replicate (rows src * cols src) zero4)))\<rparr>"
  using assms by (simp add: copyTo_def Let_def)

lemma Compositor_Inr:
  assumes res: "Compositor cv_image alpha_mask outline_mask colour = Inr final_image"
    and wf: "Mat_wf cv_image" "Mat_wf alpha_mask" "Mat_wf outline_mask"
    and dims: "rows alpha_mask = rows cv_image" "cols alpha_mask = cols cv_image"
      "rows outline_mask = rows cv_image" "cols outline_mask = cols cv_image"
    and ne: "\<not> Mat_empty cv_image"
  shows "rows final_image = rows cv_image \<and> cols final_image = cols cv_image \<and>
         length (elems final_image) = length (elems cv_image) \<and>
         (\<forall>i<length (elems cv_image).
            elems final_image ! i =
              (if elems alpha_mask ! i \<noteq> 0 then elems cv_image ! i
               else if elems outline_mask ! i \<noteq> 0 then scalarToRawData colour
               else zero4))"
proof -
  let ?solid = "Mat_Scalar (rows cv_image) (cols cv_image) colour"
  have solid: "rows ?solid = rows cv_image" "cols ?solid = cols cv_image"
    "elems ?solid = replicate (rows cv_image * cols cv_image) (scalarToRawData colour)"
    by (simp_all add: Mat_Scalar_def)
  have ne': "\<not> Mat_empty outline_mask" "\<not> Mat_empty alpha_mask"
    using ne dims by (simp_all add: Mat_empty_def)
  let ?n = "rows cv_image * cols cv_image"
  have len: "length (elems cv_image) = ?n" "length (elems alpha_mask) = ?n"
    "length (elems outline_mask) = ?n"
    using wf dims by (simp_all add: Mat_wf_def)
  let ?f1 = "\<lparr>rows = rows cv_image, cols = cols cv_image,
               elems = map (\<lambda>(m, s, d). if m \<noteq> 0 then s else d)
                 (zip (elems outline_mask) (zip (replicate ?n (scalarToRawData colour))
                    (replicate ?n zero4)))\<rparr>"
  have first: "copyTo ?solid Mat_blank outline_mask = Inr ?f1"
    using ne' dims ne
    by (simp add: copyTo_masked solid Mat_blank_def Mat_empty_def)
  have second: "copyTo cv_image ?f1 alpha_mask =
      Inr \<lparr>rows = rows cv_image, cols = cols cv_image,
           elems = map (\<lambda>(m, s, d). if m \<noteq> 0 then s else d)
             (zip (elems alpha_mask) (zip (elems cv_image) (elems ?f1)))\<rparr>"
    using ne' dims by (simp add: copyTo_masked)
  from res have fin: "final_image = \<lparr>rows = rows cv_image, cols = cols cv_image,
           elems = map (\<lambda>(m, s, d). if m \<noteq> 0 then s else d)
             (zip (elems alpha_mask) (zip (elems cv_image) (elems ?f1)))\<rparr>"
    unfolding Compositor_def Let_def first bindE_Inr second by simp
  show ?thesis
    by (simp add: fin len)
qed

lemma alpha_mask_Inr:
  assumes "vector_at (split m) 3 = Inr a"
  shows "\<not> Mat_empty m \<and> a = \<lparr>rows = rows m, cols = cols m, elems = map (channel 3) (elems m)\<rparr>"
  using assms by (auto simp: vector_at_def split_def split: if_splits)

lemma GetFrame_Inr:
  assumes "GetFrame C K self frame_image frame_number = Inr out"
  shows "\<exists>sigmaValue redValue greenValue blueValue alphaValue alpha_mask dilated outline_mask
          final_image.
      double_to_int (GetValue C (width self) frame_number / 3) = Inr sigmaValue \<and>
      double_to_int (GetValue C (red self) frame_number) = Inr redValue \<and>
      double_to_int (GetValue C (green self) frame_number) = Inr greenValue \<and>
      double_to_int (GetValue C (blue self) frame_number) = Inr blueValue \<and>
      double_to_int (GetValue C (alpha self) frame_number) = Inr alphaValue \<and>
      vector_at (split (QImageToBGRACvMat frame_image)) 3 = Inr alpha_mask \<and>
      MaskDilator K alpha_mask sigmaValue = Inr dilated \<and>
      EdgeRefiner K dilated = Inr outline_mask \<and>
      Compositor (QImageToBGRACvMat frame_image) alpha_mask outline_mask
        (blueValue, greenValue, redValue, alphaValue) = Inr final_image \<and>
      out = BGRACvMatToQImage final_image"
  using assms unfolding GetFrame_def Let_def bindE_eq_Inr by blast

lemma threshold_0_255:
  "threshold m 0 255 =
     \<lparr>rows = rows m, cols = cols m, elems = map (\<lambda>x. if 0 < x then 255 else 0) (elems m)\<rparr>"
  by (simp add: threshold_def saturate_cast_uchar_def word_less_def)

subsection \<open>Loading and serializing\<close>

lemma seqS_ok: "fst (f s) = None \<Longrightarrow> seqS f g s = g (snd (f s))"
  by (cases "f s") (auto simp: seqS_def)

lemma set_if_found_object:
  "set_if_found C (objectValue ms) key curve put self =
     (case map_of ms key of
        None \<Rightarrow> (None, self)
      | Some v \<Rightarrow>
          if v = nullValue then (None, self)
          else (fst (Keyframe_SetJsonValue C v (curve self)),
                put (snd (Keyframe_SetJsonValue C v (curve self))) self))"
  by (simp add: set_if_found_def Json_get_def isNull_def split: option.splits prod.splits)

lemma set_if_found_frame:
  assumes "\<And>k s. g (put k s) = g s"
  shows "g (snd (set_if_found C jroot key curve put self)) = g self"
  using assms
  by (simp add: set_if_found_def split: sum.splits prod.splits)

lemma set_if_found_own:
  assumes "\<And>k s. curve (put k s) = k"
  shows "curve (snd (set_if_found C (objectValue ms) key curve put self)) =
     (case map_of ms key of
        None \<Rightarrow> curve self
      | Some v \<Rightarrow>
          if v = nullValue then curve self
          else snd (Keyframe_SetJsonValue C v (curve self)))"
  using assms by (simp add: set_if_found_object split: option.splits)

lemma set_if_found_ok:
  assumes "\<And>v. map_of ms key = Some v \<Longrightarrow> v \<noteq> nullValue \<Longrightarrow>
             fst (Keyframe_SetJsonValue C v (curve self)) = None"
  shows "fst (set_if_found C (objectValue ms) key curve put self) = None"
  using assms by (simp add: set_if_found_object split: option.splits)

lemma set_parent_data_fields:
  "width (snd (set_parent_data C jroot self)) = width self"
  "red (snd (set_parent_data C jroot self)) = red self"
  "green (snd (set_parent_data C jroot self)) = green self"
  "blue (snd (set_parent_data C jroot self)) = blue self"
  "alpha (snd (set_parent_data C jroot self)) = alpha self"
  "base (snd (set_parent_data C jroot self)) = snd (EffectBase_SetJsonValue C jroot (base self))"
  "fst (set_parent_data C jroot self) = fst (EffectBase_SetJsonValue C jroot (base self))"
  by (simp_all add: set_parent_data_def split: prod.splits)

lemma curve_after_load_cases:
  "(case map_of ms key of
      None \<Rightarrow> curve_after_load C ms key k = k
    | Some v \<Rightarrow>
        if isNull v then curve_after_load C ms key k = k
        else curve_after_load C ms key k = snd (Keyframe_SetJsonValue C v k))"
  by (simp add: curve_after_load_def isNull_def split: option.splits)

lemma SetJsonValue_object:
  assumes base_ok: "fst (EffectBase_SetJsonValue C (objectValue ms) (base self)) = None"
    and curves_ok: "\<And>key v k. map_of ms key = Some v \<Longrightarrow> v \<noteq> nullValue \<Longrightarrow>
          key \<in> {''width'', ''red'', ''green'', ''blue'', ''alpha''} \<Longrightarrow>
          fst (Keyframe_SetJsonValue C v k) = None"
  shows "SetJsonValue C (objectValue ms) self =
     (None, \<lparr>base = snd (EffectBase_SetJsonValue C (objectValue ms) (base self)),
             width = curve_after_load C ms ''width'' (width self),
             red = curve_after_load C ms ''red'' (red self),
             green = curve_after_load C ms ''green'' (green self),
             blue = curve_after_load C ms ''blue'' (blue self),
             alpha = curve_after_load C ms ''alpha'' (alpha self)\<rparr>)"
proof -
  let ?r = "objectValue ms"
  let ?W = "set_if_found C ?r ''width'' width (\<lambda>k s. s\<lparr>width := k\<rparr>)"
  let ?R = "set_if_found C ?r ''red'' red (\<lambda>k s. s\<lparr>red := k\<rparr>)"
  let ?G = "set_if_found C ?r ''green'' green (\<lambda>k s. s\<lparr>green := k\<rparr>)"
  let ?B = "set_if_found C ?r ''blue'' blue (\<lambda>k s. s\<lparr>blue := k\<rparr>)"
  let ?A = "set_if_found C ?r ''alpha'' alpha (\<lambda>k s. s\<lparr>alpha := k\<rparr>)"
  define s0 where "s0 = snd (set_parent_data C ?r self)"
  define s1 where "s1 = snd (?W s0)"
  define s2 where "s2 = snd (?R s1)"
  define s3 where "s3 = snd (?G s2)"
  define s4 where "s4 = snd (?B s3)"
  define s5 where "s5 = snd (?A s4)"
  have ok0: "fst (set_parent_data C ?r self) = None"
    using base_ok by (simp add: set_parent_data_fields)
  have okW: "fst (?W s) = None" for s
  proof (rule set_if_found_ok)
    fix v assume "map_of ms ''width'' = Some v" "v \<noteq> nullValue"
    then show "fst (Keyframe_SetJsonValue C v (width s)) = None"
      by (rule curves_ok) simp
  qed
  have okR: "fst (?R s) = None" for s
  proof (rule set_if_found_ok)
    fix v assume "map_of ms ''red'' = Some v" "v \<noteq> nullValue"
    then show "fst (Keyframe_SetJsonValue C v (red s)) = None"
      by (rule curves_ok) simp
  qed
  have okG: "fst (?G s) = None" for s
  proof (rule set_if_found_ok)
    fix v assume "map_of ms ''green'' = Some v" "v \<noteq> nullValue"
    then show "fst (Keyframe_SetJsonValue C v (green s)) = None"
      by (rule curves_ok) simp
  qed
  have okB: "fst (?B s) = None" for s
  proof (rule set_if_found_ok)
    fix v assume "map_of ms ''blue'' = Some v" "v \<noteq> nullValue"
    then show "fst (Keyframe_SetJsonValue C v (blue s)) = None"
      by (rule curves_ok) simp
  qed
  have okA: "fst (?A s) = None" for s
  proof (rule set_if_found_ok)
    fix v assume "map_of ms ''alpha'' = Some v" "v \<noteq> nullValue"
    then show "fst (Keyframe_SetJsonValue C v (alpha s)) = None"
      by (rule curves_ok) simp
  qed
  have run: "SetJsonValue C ?r self = (None, s5)"
    unfolding SetJsonValue_def
    by (simp add: seqS_ok ok0 okW okR okG okB s0_def s1_def s2_def s3_def s4_def s5_def
        prod_eq_iff okA)
  have f0: "base s0 = snd (EffectBase_SetJsonValue C ?r (base self))" "width s0 = width self"
    "red s0 = red self" "green s0 = green self" "blue s0 = blue self" "alpha s0 = alpha self"
    by (simp_all add: s0_def set_parent_data_fields)
  have f1: "base s1 = base s0" "width s1 = curve_after_load C ms ''width'' (width s0)"
    "red s1 = red s0" "green s1 = green s0" "blue s1 = blue s0" "alpha s1 = alpha s0"
    unfolding s1_def curve_after_load_def
    by (simp_all add: set_if_found_frame set_if_found_own)
  have f2: "base s2 = base s1" "width s2 = width s1"
    "red s2 = curve_after_load C ms ''red'' (red s1)" "green s2 = green s1" "blue s2 = blue s1"
    "alpha s2 = alpha s1"
    unfolding s2_def curve_after_load_def
    by (simp_all add: set_if_found_frame set_if_found_own)
  have f3: "base s3 = base s2" "width s3 = width s2"
    "red s3 = red s2" "green s3 = curve_after_load C ms ''green'' (green s2)" "blue s3 = blue s2"
    "alpha s3 = alpha s2"
    unfolding s3_def curve_after_load_def
    by (simp_all add: set_if_found_frame set_if_found_own)
  have f4: "base s4 = base s3" "width s4 = width s3"
    "red s4 = red s3" "green s4 = green s3" "blue s4 = curve_after_load C ms ''blue'' (blue s3)"
    "alpha s4 = alpha s3"
    unfolding s4_def curve_after_load_def
    by (simp_all add: set_if_found_frame set_if_found_own)
  have f5: "base s5 = base s4" "width s5 = width s4"
    "red s5 = red s4" "green s5 = green s4" "blue s5 = blue s4"
    "alpha s5 = curve_after_load C ms ''alpha'' (alpha s4)"
    unfolding s5_def curve_after_load_def
    by (simp_all add: set_if_found_frame set_if_found_own)
  have "s5 = \<lparr>base = snd (EffectBase_SetJsonValue C ?r (base self)),
             width = curve_after_load C ms ''width'' (width self),
             red = curve_after_load C ms ''red'' (red self),
             green = curve_after_load C ms ''green'' (green self),
             blue = curve_after_load C ms ''blue'' (blue self),
             alpha = curve_after_load C ms ''alpha'' (alpha self)\<rparr>"
    by (cases s5) (use f0 f1 f2 f3 f4 f5 in simp)
  with run show ?thesis by simp
qed


lemma Json_set_object [simp]:
  "Json_set (objectValue ms) key v = Inr (objectValue (AList.update key v ms))"
  by (simp add: Json_set_def)

lemma Json_set_Inr:
  assumes "Json_set r key v = Inr r'"
  shows "\<exists>ms. r' = objectValue ms \<and> map_of ms key = Some v"
  using assms by (cases r) (auto simp: Json_set_def update_conv')

lemma JsonValue_Inr:
  assumes "JsonValue C self = Inr doc"
  shows "\<exists>ms. doc = objectValue ms \<and>
           map_of ms ''type'' = Some (stringValue (class_name C (base self))) \<and>
           map_of ms ''width'' = Some (Keyframe_JsonValue C (width self)) \<and>
           map_of ms ''red'' = Some (Keyframe_JsonValue C (red self)) \<and>
           map_of ms ''green'' = Some (Keyframe_JsonValue C (green self)) \<and>
           map_of ms ''blue'' = Some (Keyframe_JsonValue C (blue self)) \<and>
           map_of ms ''alpha'' = Some (Keyframe_JsonValue C (alpha self))"
proof -
  from assms obtain r0 where
    r0: "Json_set (EffectBase_JsonValue C (base self)) ''type''
           (stringValue (class_name C (base self))) = Inr r0"
    and rest: "bindE (Json_set r0 ''width'' (Keyframe_JsonValue C (width self))) (\<lambda>jroot.
     bindE (Json_set jroot ''red'' (Keyframe_JsonValue C (red self))) (\<lambda>jroot.
     bindE (Json_set jroot ''green'' (Keyframe_JsonValue C (green self))) (\<lambda>jroot.
     bindE (Json_set jroot ''blue'' (Keyframe_JsonValue C (blue self))) (\<lambda>jroot.
     Json_set jroot ''alpha'' (Keyframe_JsonValue C (alpha self)))))) = Inr doc"
    unfolding JsonValue_def bindE_eq_Inr by blast
  from Json_set_Inr [OF r0] obtain ms0 where
    ms0: "r0 = objectValue ms0" "map_of ms0 ''type'' = Some (stringValue (class_name C (base self)))"
    by blast
  from rest have "doc = objectValue
      (AList.update ''alpha'' (Keyframe_JsonValue C (alpha self))
        (AList.update ''blue'' (Keyframe_JsonValue C (blue self))
          (AList.update ''green'' (Keyframe_JsonValue C (green self))
            (AList.update ''red'' (Keyframe_JsonValue C (red self))
              (AList.update ''width'' (Keyframe_JsonValue C (width self)) ms0)))))"
    by (simp add: ms0(1) eq_commute)
  then show ?thesis
    by (simp add: update_conv' ms0(2))
qed

lemma GetFrame_cong:
  assumes "GetValue C (width a) n = GetValue C (width b) n"
    "GetValue C (red a) n = GetValue C (red b) n"
    "GetValue C (green a) n = GetValue C (green b) n"
    "GetValue C (blue a) n = GetValue C (blue b) n"
    "GetValue C (alpha a) n = GetValue C (alpha b) n"
  shows "GetFrame C K a img n = GetFrame C K b img n"
  using assms by (simp add: GetFrame_def)

lemma rethrow_std: "is_std_exception e \<Longrightarrow>
   rethrow_InvalidJSON e = InvalidJSON ''JSON is invalid (missing keys or invalid data types)''"
  by (simp add: rethrow_InvalidJSON_def)

subsection \<open>When GetFrame fails and when it returns\<close>

lemma double_to_int_zero:
  assumes "0 \<le> w" "w < 3"
  shows "double_to_int (w / 3) = Inr 0"
proof -
  have "\<lfloor>w / 3\<rfloor> = 0" using assms by (simp add: floor_eq_iff)
  with assms show ?thesis by (simp add: double_to_int_def)
qed

lemma GaussianBlur_no_kernel:
  assumes "\<not> Mat_empty src" "1 < rows src * cols src" "sigma \<le> 0"
  shows "GaussianBlur K src (0, 0) sigma sigma =
     Inl (CvException
       ''ksize.width > 0 && ksize.width % 2 == 1 && ksize.height > 0 && ksize.height % 2 == 1'')"
proof -
  have "cols src \<noteq> 1 \<or> rows src \<noteq> 1" using assms(2) by auto
  then show ?thesis
    using assms(1,3) by (auto simp: GaussianBlur_def Let_def)
qed

lemma GetFrame_isl_cases:
  assumes "\<And>sigmaValue. double_to_int (GetValue C (width self) frame_number / 3) = Inr sigmaValue \<Longrightarrow>
      \<exists>e. bindE (vector_at (split (QImageToBGRACvMat frame_image)) 3) (\<lambda>alpha_mask.
           MaskDilator K alpha_mask sigmaValue) = Inl e"
  shows "\<exists>e. GetFrame C K self frame_image frame_number = Inl e"
proof (cases "double_to_int (GetValue C (width self) frame_number / 3)")
  case (Inl e)
  then show ?thesis by (simp add: GetFrame_def)
next
  case (Inr sigmaValue)
  from assms [OF Inr] obtain e where
    e: "bindE (vector_at (split (QImageToBGRACvMat frame_image)) 3) (\<lambda>alpha_mask.
           MaskDilator K alpha_mask sigmaValue) = Inl e" by blast
  show ?thesis
  proof (cases "vector_at (split (QImageToBGRACvMat frame_image)) 3")
    case (Inl e')
    then show ?thesis
      by (simp add: GetFrame_def Let_def bindE_def split: sum.splits)
  next
    case am: (Inr alpha_mask)
    with e have "MaskDilator K alpha_mask sigmaValue = Inl e" by simp
    with Inr am show ?thesis
      by (simp add: GetFrame_def Let_def bindE_def split: sum.splits)
  qed
qed

lemma cvRound_of_int: "cvRound (of_int k) = k"
  by (simp add: cvRound_def)

lemma or_1_odd:
  assumes "0 < k"
  shows "0 < (k OR 1 :: int) \<and> (k OR 1) mod 2 = 1"
proof -
  have odd: "odd (k OR 1)" by (simp add: even_or_iff)
  then have m: "(k OR 1) mod 2 = 1" by presburger
  have nn: "0 \<le> k OR 1" using assms by simp
  have nz: "k OR 1 \<noteq> 0" using odd by auto
  from nn nz have "0 < k OR 1" by linarith
  then show ?thesis using m by (rule conjI)
qed

lemma GaussianBlur_returns:
  assumes "\<not> Mat_empty src" "0 < cvRound (sigma * 3 * 2 + 1)" "0 < sigma"
  shows "\<exists>dst. GaussianBlur K src (0, 0) sigma sigma = Inr dst"
  using assms or_1_odd [of "cvRound (sigma * 3 * 2 + 1)"]
  by (auto simp: GaussianBlur_def Let_def)

text \<open>
  For a width in the documented range that is at least 3, on an image that has pixels,
  \<open>GetFrame\<close> returns.
\<close>

lemma GetFrame_returns:
  assumes wf: "QImage_wf frame_image"
    and size: "qwidth frame_image \<noteq> 0" "qheight frame_image \<noteq> 0"
    and w: "3 \<le> GetValue C (width self) frame_number" "GetValue C (width self) frame_number \<le> 1000"
    and r: "\<bar>GetValue C (red self) frame_number\<bar> < 2147483648"
    and g: "\<bar>GetValue C (green self) frame_number\<bar> < 2147483648"
    and b: "\<bar>GetValue C (blue self) frame_number\<bar> < 2147483648"
    and a: "\<bar>GetValue C (alpha self) frame_number\<bar> < 2147483648"
  shows "\<exists>out. GetFrame C K self frame_image frame_number = Inr out"
proof -
  let ?cv = "QImageToBGRACvMat frame_image"
  obtain sigmaValue where s: "double_to_int (GetValue C (width self) frame_number / 3) = Inr sigmaValue"
    and s1: "1 \<le> sigmaValue"
    using w by (auto simp: double_to_int_def le_floor_iff)
  have conv: "\<exists>v. double_to_int d = Inr v" if "\<bar>d\<bar> < 2147483648" for d
    using that by (auto simp: double_to_int_def)
  from conv [OF r] conv [OF g] conv [OF b] conv [OF a] obtain redValue greenValue blueValue alphaValue
    where c: "double_to_int (GetValue C (red self) frame_number) = Inr redValue"
      "double_to_int (GetValue C (green self) frame_number) = Inr greenValue"
      "double_to_int (GetValue C (blue self) frame_number) = Inr blueValue"
      "double_to_int (GetValue C (alpha self) frame_number) = Inr alphaValue"
    by blast
  let ?am = "\<lparr>rows = rows ?cv, cols = cols ?cv, elems = map (channel 3) (elems ?cv)\<rparr>"
  have ne: "\<not> Mat_empty ?cv" using size by (simp add: Mat_empty_def QImageToBGRACvMat_def)
  then have am: "vector_at (split ?cv) 3 = Inr ?am"
    by (simp add: vector_at_def split_def)
  have cvwf: "Mat_wf ?cv"
    using wf by (simp add: Mat_wf_def QImage_wf_def QImageToBGRACvMat_def)
  have amwf: "Mat_wf ?am" using cvwf by (simp add: Mat_wf_def)
  have amne: "\<not> Mat_empty ?am" using ne by (simp add: Mat_empty_def)
  have k1: "0 < cvRound (of_int sigmaValue * 3 * 2 + 1)"
  proof -
    have "of_int sigmaValue * 3 * 2 + (1::real) = of_int (sigmaValue * 6 + 1)" by simp
    then have "cvRound (of_int sigmaValue * 3 * 2 + 1) = sigmaValue * 6 + 1"
      by (simp only: cvRound_of_int)
    with s1 show ?thesis by simp
  qed
  from GaussianBlur_returns [OF amne k1, of K] s1 obtain blurred where
    bl: "GaussianBlur K ?am (0, 0) (of_int sigmaValue) (of_int sigmaValue) = Inr blurred"
    by auto
  then have md: "MaskDilator K ?am sigmaValue = Inr (threshold blurred 0 255)"
    by (simp add: MaskDilator_def)
  let ?dil = "threshold blurred 0 255"
  from MaskDilator_Inr [OF md] amwf
  have d: "rows ?dil = rows ?cv" "cols ?dil = cols ?cv" "Mat_wf ?dil" by simp_all
  let ?edge = "Canny K ?dil 250 255"
  have ene: "\<not> Mat_empty ?edge"
    using ne d by (simp add: Mat_empty_def Canny_def)
  have k2: "0 < cvRound ((8 / 10 :: real) * 3 * 2 + 1)"
    by (simp add: cvRound_def)
  from GaussianBlur_returns [OF ene k2, of K] obtain be where
    be: "GaussianBlur K ?edge (0, 0) (8 / 10) (8 / 10) = Inr be" by auto
  from GaussianBlur_Inr [OF be] have bed: "rows be = rows ?dil" "cols be = cols ?dil"
    by (simp_all add: Canny_def)
  then obtain om where orr: "bitwise_or ?dil be = Inr om"
    by (simp add: bitwise_or_def)
  have er: "EdgeRefiner K ?dil = Inr om"
    by (simp only: EdgeRefiner_def Let_def be bindE_Inr orr)
  from EdgeRefiner_Inr [OF er] d
  have o: "rows om = rows ?cv" "cols om = cols ?cv" by simp_all
  have one: "\<not> Mat_empty om" using ne o by (simp add: Mat_empty_def)
  let ?colour = "(blueValue, greenValue, redValue, alphaValue)"
  let ?solid = "Mat_Scalar (rows ?cv) (cols ?cv) ?colour"
  obtain f1 where f1: "copyTo ?solid Mat_blank om = Inr f1"
    "rows f1 = rows ?cv" "cols f1 = cols ?cv"
    using one o by (simp add: copyTo_masked Mat_Scalar_def)
  obtain f2 where f2: "copyTo ?cv f1 ?am = Inr f2"
    using amne by (simp add: copyTo_masked)
  have comp: "Compositor ?cv ?am om ?colour = Inr f2"
    by (simp add: Compositor_def Let_def f1(1) f2)
  show ?thesis
    by (simp add: GetFrame_def s c Let_def am md er comp)
qed

subsection \<open>Evaluation on the concrete collaborators\<close>

lemma replicate4: "replicate 4 x = [x, x, x, x]"
  by (simp add: eval_nat_numeral)

lemma upt4: "[0..<4] = [0, 1, 2, 3]"
  by (simp add: upt_rec)

lemma eval_alpha_mask:
  "vector_at (split (QImageToBGRACvMat test_image)) 3 =
     Inr \<lparr>rows = 2, cols = 2, elems = [128, 0, 0, 0]\<rparr>"
  by (simp add: test_image_def QImageToBGRACvMat_def split_def Mat_empty_def vector_at_def
      channel_def)

lemma eval_GaussianBlur:
  "GaussianBlur spreading_filters \<lparr>rows = 2, cols = 2, elems = [128, 0, 0, 0]\<rparr> (0, 0) 1 1 =
     Inr \<lparr>rows = 2, cols = 2, elems = [128, 128, 128, 128]\<rparr>"
  by (simp add: GaussianBlur_def Mat_empty_def cvRound_def spreading_filters_def upt4)

lemma eval_MaskDilator:
  "MaskDilator spreading_filters \<lparr>rows = 2, cols = 2, elems = [128, 0, 0, 0]\<rparr> 1 =
     Inr \<lparr>rows = 2, cols = 2, elems = [255, 255, 255, 255]\<rparr>"
  by (simp add: MaskDilator_def eval_GaussianBlur threshold_def saturate_cast_uchar_def)

lemma eval_EdgeRefiner:
  "EdgeRefiner spreading_filters \<lparr>rows = 2, cols = 2, elems = [255, 255, 255, 255]\<rparr> =
     Inr \<lparr>rows = 2, cols = 2, elems = [255, 255, 255, 255]\<rparr>"
  by (simp add: EdgeRefiner_def GaussianBlur_def Mat_empty_def cvRound_def Canny_def
      bitwise_or_def spreading_filters_def upt4)

lemma eval_Compositor:
  "0 \<le> r \<Longrightarrow> r \<le> 255 \<Longrightarrow>
   Compositor (QImageToBGRACvMat test_image) \<lparr>rows = 2, cols = 2, elems = [128, 0, 0, 0]\<rparr>
       \<lparr>rows = 2, cols = 2, elems = [255, 255, 255, 255]\<rparr> (0, 0, r, 255) =
     Inr \<lparr>rows = 2, cols = 2,
          elems = [(100, 100, 100, 128), (0, 0, word_of_int r, 255), (0, 0, word_of_int r, 255),
                   (0, 0, word_of_int r, 255)]\<rparr>"
  by (simp add: Compositor_def Mat_Scalar_def scalarToRawData_def copyTo_def Mat_empty_def
      Mat_blank_def zero4_def saturate_cast_uchar_def replicate4 test_image_def
      QImageToBGRACvMat_def)

lemma eval_GetFrame:
  "GetFrame constant_curves spreading_filters (Outline_blank constant_curves ()) test_image 1 =
     Inr \<lparr>qwidth = 2, qheight = 2,
          bits = [(50, 50, 50, 128), (0, 0, 0, 255), (0, 0, 0, 255), (0, 0, 0, 255)]\<rparr>"
  by (simp add: GetFrame_def constant_curves_def Outline_blank_def double_to_int_def
      eval_alpha_mask eval_MaskDilator eval_EdgeRefiner eval_Compositor
      BGRACvMatToQImage_def ARGB32_to_RGBA8888_Premultiplied_def qPremultiply_def)

lemma eval_opaque_alpha_mask:
  "vector_at (split (QImageToBGRACvMat opaque_image)) 3 =
     Inr \<lparr>rows = 2, cols = 2, elems = [255, 255, 255, 255]\<rparr>"
  by (simp add: opaque_image_def QImageToBGRACvMat_def split_def Mat_empty_def vector_at_def
      channel_def)

lemma eval_opaque_MaskDilator:
  "MaskDilator spreading_filters \<lparr>rows = 2, cols = 2, elems = [255, 255, 255, 255]\<rparr> 1 =
     Inr \<lparr>rows = 2, cols = 2, elems = [255, 255, 255, 255]\<rparr>"
  by (simp add: MaskDilator_def GaussianBlur_def Mat_empty_def cvRound_def spreading_filters_def
      upt4 threshold_def saturate_cast_uchar_def)

lemma eval_opaque_Compositor:
  "Compositor (QImageToBGRACvMat opaque_image)
       \<lparr>rows = 2, cols = 2, elems = [255, 255, 255, 255]\<rparr>
       \<lparr>rows = 2, cols = 2, elems = [255, 255, 255, 255]\<rparr> (0, 0, 0, 255) =
     Inr (QImageToBGRACvMat opaque_image)"
  by (simp add: Compositor_def Mat_Scalar_def scalarToRawData_def copyTo_def Mat_empty_def
      Mat_blank_def zero4_def saturate_cast_uchar_def replicate4 opaque_image_def
      QImageToBGRACvMat_def)

lemma eval_opaque_GetFrame:
  "GetFrame constant_curves spreading_filters (Outline_blank constant_curves ()) opaque_image 1 =
     Inr \<lparr>qwidth = 2, qheight = 2,
          bits = [(30, 20, 10, 255), (30, 20, 10, 255), (30, 20, 10, 255), (30, 20, 10, 255)]\<rparr>"
  by (simp add: GetFrame_def constant_curves_def Outline_blank_def double_to_int_def
      eval_opaque_alpha_mask eval_opaque_MaskDilator eval_EdgeRefiner eval_opaque_Compositor)
    (simp add: BGRACvMatToQImage_def ARGB32_to_RGBA8888_Premultiplied_def qPremultiply_def
      QImageToBGRACvMat_def opaque_image_def)

lemma eval_red_Compositor:
  "Compositor (QImageToBGRACvMat test_image) \<lparr>rows = 2, cols = 2, elems = [128, 0, 0, 0]\<rparr>
       \<lparr>rows = 2, cols = 2, elems = [255, 255, 255, 255]\<rparr> (0, 0, 254, 255) =
     Inr \<lparr>rows = 2, cols = 2,
          elems = [(100, 100, 100, 128), (0, 0, 254, 255), (0, 0, 254, 255), (0, 0, 254, 255)]\<rparr>"
  using eval_Compositor [of 254] by simp

lemma eval_JsonValue:
  "JsonValue constant_curves configured =
     Inr (objectValue [(''type'', stringValue ''Outline''), (''width'', realValue 6),
           (''red'', realValue 255), (''green'', realValue 0), (''blue'', realValue 0),
           (''alpha'', realValue 255)])"
  by (simp add: JsonValue_def constant_curves_def configured_def Json_set_def)

subsection \<open>What the two masked copies keep\<close>

text \<open>
  Whenever \<open>GetFrame\<close> returns on a well-formed image, the composited matrix
  \<^verbatim>\<open>final_image\<close> holds, at every pixel whose source alpha is not zero, the pixel of the
  input, so the copy of line 96 is never skipped or partial; what the frame receives there is
  that pixel as \<open>BGRACvMatToQImage\<close> converts it. For an input whose alpha is 255 everywhere
  \<^verbatim>\<open>final_image\<close> is the input buffer.
\<close>

lemma final_image_keeps_footprint:
  assumes wf: "QImage_wf frame_image"
    and res: "GetFrame C K self frame_image frame_number = Inr out"
  shows "\<exists>final_image.
      out = BGRACvMatToQImage final_image \<and>
      qwidth out = qwidth frame_image \<and> qheight out = qheight frame_image \<and>
      length (elems final_image) = length (bits frame_image) \<and>
      (\<forall>i<length (bits frame_image).
         channel 3 (bits frame_image ! i) \<noteq> 0 \<longrightarrow>
           elems final_image ! i = bits frame_image ! i \<and>
           bits out ! i = ARGB32_to_RGBA8888_Premultiplied (bits frame_image ! i)) \<and>
      ((\<forall>p\<in>set (bits frame_image). channel 3 p = 255) \<longrightarrow>
         elems final_image = bits frame_image)"
proof -
  let ?cv = "QImageToBGRACvMat frame_image"
  from GetFrame_Inr [OF res] obtain sigmaValue colour alpha_mask dilated outline_mask final_image
    where am: "vector_at (split ?cv) 3 = Inr alpha_mask"
      and dil: "MaskDilator K alpha_mask sigmaValue = Inr dilated"
      and ref: "EdgeRefiner K dilated = Inr outline_mask"
      and comp: "Compositor ?cv alpha_mask outline_mask colour = Inr final_image"
      and out: "out = BGRACvMatToQImage final_image"
    by blast
  have cv: "rows ?cv = qheight frame_image" "cols ?cv = qwidth frame_image"
    "elems ?cv = bits frame_image" "Mat_wf ?cv"
    using wf by (simp_all add: QImageToBGRACvMat_def QImage_wf_def Mat_wf_def)
  from alpha_mask_Inr [OF am] have ne: "\<not> Mat_empty ?cv"
    and a: "rows alpha_mask = rows ?cv" "cols alpha_mask = cols ?cv"
      "elems alpha_mask = map (channel 3) (elems ?cv)"
    by simp_all
  have awf: "Mat_wf alpha_mask"
    using a cv(4) by (simp add: Mat_wf_def)
  from MaskDilator_Inr [OF dil] awf a
  have d: "rows dilated = rows ?cv" "cols dilated = cols ?cv" "Mat_wf dilated" by simp_all
  from EdgeRefiner_Inr [OF ref] d
  have om: "rows outline_mask = rows ?cv" "cols outline_mask = cols ?cv" "Mat_wf outline_mask"
    by simp_all
  from Compositor_Inr [OF comp cv(4) awf om(3) a(1) a(2) om(1) om(2) ne]
  have dims: "rows final_image = rows ?cv" "cols final_image = cols ?cv"
    and len: "length (elems final_image) = length (bits frame_image)"
    and px: "\<And>i. i < length (bits frame_image) \<Longrightarrow>
         elems final_image ! i =
           (if elems alpha_mask ! i \<noteq> 0 then bits frame_image ! i
            else if elems outline_mask ! i \<noteq> 0 then scalarToRawData colour else zero4)"
    by (simp_all add: cv(3))
  have kept: "elems final_image ! i = bits frame_image ! i"
    if "i < length (bits frame_image)" "channel 3 (bits frame_image ! i) \<noteq> 0" for i
    using px [OF that(1)] that by (simp add: a(3) cv(3))
  have opaque: "elems final_image = bits frame_image"
    if all: "\<forall>p\<in>set (bits frame_image). channel 3 p = 255"
  proof (rule nth_equalityI)
    show "length (elems final_image) = length (bits frame_image)" by (rule len)
  next
    fix i assume "i < length (elems final_image)"
    then have i: "i < length (bits frame_image)" by (simp add: len)
    then have "channel 3 (bits frame_image ! i) = 255" using all by simp
    then show "elems final_image ! i = bits frame_image ! i"
      using kept [OF i] by simp
  qed
  have conv: "bits out ! i = ARGB32_to_RGBA8888_Premultiplied (elems final_image ! i)"
    if "i < length (bits frame_image)" for i
    using that len by (simp add: out BGRACvMatToQImage_def)
  show ?thesis
  proof (intro exI [of _ final_image] conjI allI impI)
    show "out = BGRACvMatToQImage final_image" by (rule out)
    show "qwidth out = qwidth frame_image"
      by (simp add: out BGRACvMatToQImage_def dims cv)
    show "qheight out = qheight frame_image"
      by (simp add: out BGRACvMatToQImage_def dims cv)
    show "length (elems final_image) = length (bits frame_image)" by (rule len)
    show "elems final_image = bits frame_image"
      if "\<forall>p\<in>set (bits frame_image). channel 3 p = 255"
      using opaque [OF that] .
  next
    fix i assume "i < length (bits frame_image)" "channel 3 (bits frame_image ! i) \<noteq> 0"
    then show "elems final_image ! i = bits frame_image ! i" by (rule kept)
  next
    fix i assume i: "i < length (bits frame_image)" "channel 3 (bits frame_image ! i) \<noteq> 0"
    show "bits out ! i = ARGB32_to_RGBA8888_Premultiplied (bits frame_image ! i)"
      using conv [OF i(1)] kept [OF i] by simp
  qed
qed

text \<open>The same at \<open>test_image\<close>.\<close>

lemma final_image_keeps_footprint_at_test_image:
  "QImage_wf test_image \<and>
   GetFrame constant_curves spreading_filters (Outline_blank constant_curves ()) test_image 1 =
     Inr \<lparr>qwidth = 2, qheight = 2,
          bits = [(50, 50, 50, 128), (0, 0, 0, 255), (0, 0, 0, 255), (0, 0, 0, 255)]\<rparr> \<and>
   channel 3 (bits test_image ! 0) \<noteq> 0 \<and>
   ARGB32_to_RGBA8888_Premultiplied (bits test_image ! 0) = (50, 50, 50, 128)"
proof -
  have wf: "QImage_wf test_image"
    by (simp add: QImage_wf_def test_image_def)
  have px: "channel 3 (bits test_image ! 0) \<noteq> 0"
    by (simp add: test_image_def channel_def)
  from final_image_keeps_footprint [OF wf eval_GetFrame] px
  have "ARGB32_to_RGBA8888_Premultiplied (bits test_image ! 0) = (50, 50, 50, 128)"
    by (auto simp: test_image_def)
  with wf px eval_GetFrame show ?thesis by simp
qed

section \<open>The claims\<close>

subsection \<open>C1: the pixels of the original footprint\<close>

text \<open>
  C1 does not hold of the code. \<open>QImageToBGRACvMat\<close> hands the bytes of the frame to OpenCV
  as they are, and \<open>BGRACvMatToQImage\<close> reads the composited bytes as \<^verbatim>\<open>Format_ARGB32\<close> and
  converts them to \<^verbatim>\<open>Format_RGBA8888_Premultiplied\<close>, although the header introduces the two
  as converting a \<^verbatim>\<open>QImage\<close> to a \<^verbatim>\<open>cv::Mat\<close> and vice versa. So a pixel of the footprint
  does not come back as it went in: at \<open>test_image\<close> pixel 0 has alpha 128 and its colour
  bytes are halved; at \<open>opaque_image\<close> every alpha is 255 and the first and the third
  byte of every pixel have changed places.
\<close>

theorem footprint_pixel_changed:
  "GetFrame constant_curves spreading_filters (Outline_blank constant_curves ()) test_image 1 =
     Inr \<lparr>qwidth = 2, qheight = 2,
          bits = [(50, 50, 50, 128), (0, 0, 0, 255), (0, 0, 0, 255), (0, 0, 0, 255)]\<rparr> \<and>
   channel 3 (bits test_image ! 0) \<noteq> 0 \<and>
   bits test_image ! 0 = (100, 100, 100, 128) \<and>
   GetFrame constant_curves spreading_filters (Outline_blank constant_curves ()) opaque_image 1 =
     Inr \<lparr>qwidth = 2, qheight = 2,
          bits = [(30, 20, 10, 255), (30, 20, 10, 255), (30, 20, 10, 255), (30, 20, 10, 255)]\<rparr> \<and>
   bits opaque_image = [(10, 20, 30, 255), (10, 20, 30, 255), (10, 20, 30, 255), (10, 20, 30, 255)]"
  by (simp add: eval_GetFrame eval_opaque_GetFrame) (simp add: test_image_def opaque_image_def channel_def)

subsection \<open>C2: a width below 3\<close>

text \<open>
  C2 does not hold of the code. For a width in the documented range with
  \<open>0 \<le> width < 3\<close> the spread \<^verbatim>\<open>sigmaValue\<close> is 0; on an image of more than one pixel
  \<^verbatim>\<open>cv::GaussianBlur(alpha_mask, outline_mask, cv::Size(0, 0), 0, 0, ...)\<close> has neither a kernel
  size nor a sigma to compute one from, \<open>MaskDilator\<close> throws \<^verbatim>\<open>cv::Exception\<close> and
  \<open>GetFrame\<close> does not return an image.
\<close>

theorem sigma_zero_throws:
  assumes w: "0 \<le> GetValue C (width self) frame_number" "GetValue C (width self) frame_number < 3"
    and size: "1 < qheight frame_image * qwidth frame_image"
  shows "double_to_int (GetValue C (width self) frame_number / 3) = Inr 0 \<and>
         MaskDilator K \<lparr>rows = qheight frame_image, cols = qwidth frame_image,
                        elems = map (channel 3) (bits frame_image)\<rparr> 0 =
           Inl (CvException
             ''ksize.width > 0 && ksize.width % 2 == 1 && ksize.height > 0 && ksize.height % 2 == 1'') \<and>
         (\<exists>e. GetFrame C K self frame_image frame_number = Inl e)"
proof -
  let ?am = "\<lparr>rows = qheight frame_image, cols = qwidth frame_image,
                        elems = map (channel 3) (bits frame_image)\<rparr>"
  have s0: "double_to_int (GetValue C (width self) frame_number / 3) = Inr 0"
    using w by (rule double_to_int_zero)
  have pos: "qheight frame_image \<noteq> 0 \<and> qwidth frame_image \<noteq> 0"
    using size by (cases "qheight frame_image = 0"; cases "qwidth frame_image = 0"; simp)
  have ne: "\<not> Mat_empty ?am" "1 < rows ?am * cols ?am"
    using size pos by (simp_all add: Mat_empty_def)
  have md: "MaskDilator K ?am 0 = Inl (CvException
             ''ksize.width > 0 && ksize.width % 2 == 1 && ksize.height > 0 && ksize.height % 2 == 1'')"
    using GaussianBlur_no_kernel [OF ne, of 0 K] by (simp add: MaskDilator_def)
  have am: "vector_at (split (QImageToBGRACvMat frame_image)) 3 = Inr ?am"
    using pos by (simp add: vector_at_def split_def QImageToBGRACvMat_def Mat_empty_def)
  have "\<exists>e. GetFrame C K self frame_image frame_number = Inl e"
    by (rule GetFrame_isl_cases) (simp add: s0 am md)
  with s0 md show ?thesis by simp
qed

text \<open>The theorem at width 2 on \<open>test_image\<close>, with the exception \<open>GetFrame\<close> ends in.\<close>

theorem sigma_zero_throws_witness:
  "0 \<le> GetValue constant_curves (width ((Outline_blank constant_curves ())\<lparr>width := 2\<rparr>)) 1 \<and>
   GetValue constant_curves (width ((Outline_blank constant_curves ())\<lparr>width := 2\<rparr>)) 1 < 3 \<and>
   1 < qheight test_image * qwidth test_image \<and>
   GetFrame constant_curves spreading_filters ((Outline_blank constant_curves ())\<lparr>width := 2\<rparr>)
       test_image 1 =
     Inl (CvException
       ''ksize.width > 0 && ksize.width % 2 == 1 && ksize.height > 0 && ksize.height % 2 == 1'')"
proof -
  let ?self = "(Outline_blank constant_curves ())\<lparr>width := 2\<rparr>"
  have w: "0 \<le> GetValue constant_curves (width ?self) 1"
    "GetValue constant_curves (width ?self) 1 < 3"
    by (simp_all add: constant_curves_def Outline_blank_def)
  have size: "1 < qheight test_image * qwidth test_image"
    by (simp add: test_image_def)
  from sigma_zero_throws [OF w size, of spreading_filters]
  have s: "double_to_int (GetValue constant_curves (width ?self) 1 / 3) = Inr 0"
    and md: "MaskDilator spreading_filters \<lparr>rows = qheight test_image, cols = qwidth test_image,
                        elems = map (channel 3) (bits test_image)\<rparr> 0 =
           Inl (CvException
             ''ksize.width > 0 && ksize.width % 2 == 1 && ksize.height > 0 && ksize.height % 2 == 1'')"
    by simp_all
  have md': "MaskDilator spreading_filters \<lparr>rows = 2, cols = 2, elems = [128, 0, 0, 0]\<rparr> 0 =
           Inl (CvException
             ''ksize.width > 0 && ksize.width % 2 == 1 && ksize.height > 0 && ksize.height % 2 == 1'')"
    using md by (simp add: test_image_def channel_def)
  have "GetFrame constant_curves spreading_filters ?self test_image 1 =
     Inl (CvException
       ''ksize.width > 0 && ksize.width % 2 == 1 && ksize.height > 0 && ksize.height % 2 == 1'')"
    unfolding GetFrame_def s
    by (simp add: constant_curves_def Outline_blank_def double_to_int_def eval_alpha_mask md')
  with w size show ?thesis by simp
qed

subsection \<open>C3: an image without pixels\<close>

text \<open>
  C3, as the code has it. For an image of zero width or zero height \<^verbatim>\<open>cv::split\<close> leaves
  the vector of channels empty, \<^verbatim>\<open>channels[3]\<close> is read out of range, and \<open>GetFrame\<close>
  does not return an image, whatever the parameters are.
\<close>

theorem zero_area_fails:
  assumes "qwidth frame_image = 0 \<or> qheight frame_image = 0"
  shows "split (QImageToBGRACvMat frame_image) = [] \<and>
         (\<exists>e. GetFrame C K self frame_image frame_number = Inl e)"
proof -
  have s: "split (QImageToBGRACvMat frame_image) = []"
    using assms by (auto simp: split_def QImageToBGRACvMat_def Mat_empty_def)
  have "\<exists>e. GetFrame C K self frame_image frame_number = Inl e"
    by (rule GetFrame_isl_cases) (simp add: s vector_at_def)
  with s show ?thesis by simp
qed

text \<open>The theorem at an image of width 3 and height 0.\<close>

theorem zero_area_fails_witness:
  "qheight \<lparr>qwidth = 3, qheight = 0, bits = []\<rparr> = 0 \<and>
   split (QImageToBGRACvMat \<lparr>qwidth = 3, qheight = 0, bits = []\<rparr>) = [] \<and>
   GetFrame constant_curves spreading_filters (Outline_blank constant_curves ())
       \<lparr>qwidth = 3, qheight = 0, bits = []\<rparr> 1 =
     Inl (UndefinedBehaviour ''std::vector index out of range'')"
proof -
  let ?img = "\<lparr>qwidth = 3, qheight = 0, bits = []\<rparr>"
  have z: "qwidth ?img = 0 \<or> qheight ?img = 0" by simp
  from zero_area_fails [OF z, of constant_curves spreading_filters
      "Outline_blank constant_curves ()" 1]
  have s: "split (QImageToBGRACvMat ?img) = []" by simp
  have "GetFrame constant_curves spreading_filters (Outline_blank constant_curves ()) ?img 1 =
     Inl (UndefinedBehaviour ''std::vector index out of range'')"
    unfolding GetFrame_def Let_def s
    by (simp add: constant_curves_def Outline_blank_def double_to_int_def vector_at_def)
  with s show ?thesis by simp
qed

text \<open>
  C3 as it is stated fails: on the image of 0 by 0 pixels \<open>GetFrame\<close> ends in an error
  and produces no frame.
\<close>

theorem zero_area_not_a_no_op:
  "GetFrame constant_curves spreading_filters (Outline_blank constant_curves ())
       \<lparr>qwidth = 0, qheight = 0, bits = []\<rparr> 1 =
     Inl (UndefinedBehaviour ''std::vector index out of range'')"
  by (simp add: GetFrame_def constant_curves_def Outline_blank_def double_to_int_def
      vector_at_def split_def QImageToBGRACvMat_def Mat_empty_def)

subsection \<open>C4: the binarized mask\<close>

text \<open>
  C4. \<^verbatim>\<open>cv::threshold(outline_mask, outline_mask, 0, 255, THRESH_BINARY)\<close> keeps the size of
  the mask, turns every element greater than 0 into 255 and every other element into 0, so
  the result holds the values 0 and 255 only; and the mask that \<open>MaskDilator\<close> returns is this
  threshold of the blurred alpha mask.
\<close>

theorem binarized_mask_strict:
  "length (elems (threshold m 0 255)) = length (elems m) \<and>
   (\<forall>i<length (elems m).
      elems (threshold m 0 255) ! i = (if 0 < elems m ! i then 255 else 0)) \<and>
   set (elems (threshold m 0 255)) \<subseteq> {0, 255} \<and>
   (MaskDilator K alpha_mask sigmaValue = Inr outline_mask \<longrightarrow>
      (\<exists>blurred.
         GaussianBlur K alpha_mask (0, 0) (of_int sigmaValue) (of_int sigmaValue) = Inr blurred \<and>
         outline_mask = threshold blurred 0 255))"
proof (intro conjI impI)
  show "length (elems (threshold m 0 255)) = length (elems m)"
    by (simp add: threshold_0_255)
  show "\<forall>i<length (elems m).
      elems (threshold m 0 255) ! i = (if 0 < elems m ! i then 255 else 0)"
    by (simp add: threshold_0_255)
  show "set (elems (threshold m 0 255)) \<subseteq> {0, 255}"
    by (auto simp: threshold_0_255)
next
  assume "MaskDilator K alpha_mask sigmaValue = Inr outline_mask"
  then show "\<exists>blurred.
         GaussianBlur K alpha_mask (0, 0) (of_int sigmaValue) (of_int sigmaValue) = Inr blurred \<and>
         outline_mask = threshold blurred 0 255"
    by (auto simp: MaskDilator_def bindE_eq_Inr)
qed

text \<open>
  The theorem at a mask with the elements 0, 1, 128 and 255, and at the alpha mask of
  \<open>test_image\<close> with a spread of 1.
\<close>

theorem binarized_mask_strict_witness:
  "MaskDilator spreading_filters \<lparr>rows = 2, cols = 2, elems = [128, 0, 0, 0]\<rparr> 1 =
     Inr \<lparr>rows = 2, cols = 2, elems = [255, 255, 255, 255]\<rparr> \<and>
   GaussianBlur spreading_filters \<lparr>rows = 2, cols = 2, elems = [128, 0, 0, 0]\<rparr> (0, 0) 1 1 =
     Inr \<lparr>rows = 2, cols = 2, elems = [128, 128, 128, 128]\<rparr> \<and>
   threshold \<lparr>rows = 2, cols = 2, elems = [128, 128, 128, 128]\<rparr> 0 255 =
     \<lparr>rows = 2, cols = 2, elems = [255, 255, 255, 255]\<rparr> \<and>
   elems (threshold \<lparr>rows = 2, cols = 2, elems = [0, 1, 128, 255]\<rparr> 0 255) =
     [0, 255, 255, 255]"
  using binarized_mask_strict [of "\<lparr>rows = 2, cols = 2, elems = [0, 1, 128, 255]\<rparr>"
      spreading_filters "\<lparr>rows = 2, cols = 2, elems = [128, 0, 0, 0]\<rparr>" 1
      "\<lparr>rows = 2, cols = 2, elems = [255, 255, 255, 255]\<rparr>"]
  by (simp add: eval_MaskDilator eval_GaussianBlur threshold_0_255)

subsection \<open>C6: serializing and loading\<close>

text \<open>
  C6. Let the document of a curve never be null and let \<^verbatim>\<open>Keyframe::SetJsonValue\<close>, given
  the document of a curve, succeed and leave a curve with the same value at the frame.
  Then the document that \<open>JsonValue\<close> produces loads into any other instance (a fresh one
  too) without an exception, provided \<^verbatim>\<open>EffectBase::SetJsonValue\<close> accepts it, and
  \<open>GetFrame\<close> at that frame gives the same result for the loaded instance and for the
  serialized one, on the same image.
\<close>

theorem json_round_trip:
  assumes doc_not_null: "\<And>k. Keyframe_JsonValue C k \<noteq> nullValue"
    and curve_round_trip: "\<And>k k0.
      fst (Keyframe_SetJsonValue C (Keyframe_JsonValue C k) k0) = None \<and>
      GetValue C (snd (Keyframe_SetJsonValue C (Keyframe_JsonValue C k) k0)) frame_number =
        GetValue C k frame_number"
    and ser: "JsonValue C self = Inr doc"
    and base_ok: "fst (EffectBase_SetJsonValue C doc (base fresh)) = None"
  shows "\<exists>copy. SetJsonValue C doc fresh = (None, copy) \<and>
           GetFrame C K copy frame_image frame_number =
           GetFrame C K self frame_image frame_number"
proof -
  from JsonValue_Inr [OF ser] obtain ms where doc: "doc = objectValue ms"
    and ms: "map_of ms ''width'' = Some (Keyframe_JsonValue C (width self))"
      "map_of ms ''red'' = Some (Keyframe_JsonValue C (red self))"
      "map_of ms ''green'' = Some (Keyframe_JsonValue C (green self))"
      "map_of ms ''blue'' = Some (Keyframe_JsonValue C (blue self))"
      "map_of ms ''alpha'' = Some (Keyframe_JsonValue C (alpha self))"
    by blast
  have curves_ok: "fst (Keyframe_SetJsonValue C v k) = None"
    if "map_of ms key = Some v" "v \<noteq> nullValue"
      "key \<in> {''width'', ''red'', ''green'', ''blue'', ''alpha''}" for key v k
    using that ms curve_round_trip by auto
  let ?copy = "\<lparr>base = snd (EffectBase_SetJsonValue C (objectValue ms) (base fresh)),
             width = curve_after_load C ms ''width'' (width fresh),
             red = curve_after_load C ms ''red'' (red fresh),
             green = curve_after_load C ms ''green'' (green fresh),
             blue = curve_after_load C ms ''blue'' (blue fresh),
             alpha = curve_after_load C ms ''alpha'' (alpha fresh)\<rparr>"
  have run: "SetJsonValue C doc fresh = (None, ?copy)"
    unfolding doc
    by (rule SetJsonValue_object) (use base_ok doc curves_ok in auto)
  have "GetFrame C K ?copy frame_image frame_number = GetFrame C K self frame_image frame_number"
    by (rule GetFrame_cong) (simp_all add: curve_after_load_def ms doc_not_null curve_round_trip)
  with run show ?thesis by blast
qed

text \<open>The theorem for constant curves: \<open>configured\<close> loaded into the blank instance.\<close>

theorem json_round_trip_witness:
  "JsonValue constant_curves configured =
     Inr (objectValue [(''type'', stringValue ''Outline''), (''width'', realValue 6),
           (''red'', realValue 255), (''green'', realValue 0), (''blue'', realValue 0),
           (''alpha'', realValue 255)]) \<and>
   SetJsonValue constant_curves
     (objectValue [(''type'', stringValue ''Outline''), (''width'', realValue 6),
           (''red'', realValue 255), (''green'', realValue 0), (''blue'', realValue 0),
           (''alpha'', realValue 255)]) (Outline_blank constant_curves ()) = (None, configured) \<and>
   GetFrame constant_curves spreading_filters
     (snd (SetJsonValue constant_curves
       (objectValue [(''type'', stringValue ''Outline''), (''width'', realValue 6),
           (''red'', realValue 255), (''green'', realValue 0), (''blue'', realValue 0),
           (''alpha'', realValue 255)]) (Outline_blank constant_curves ()))) test_image 1 =
   GetFrame constant_curves spreading_filters configured test_image 1"
proof -
  let ?doc = "objectValue [(''type'', stringValue ''Outline''), (''width'', realValue 6),
           (''red'', realValue 255), (''green'', realValue 0), (''blue'', realValue 0),
           (''alpha'', realValue 255)]"
  have n: "Keyframe_JsonValue constant_curves k \<noteq> nullValue" for k
    by (simp add: constant_curves_def)
  have rt: "fst (Keyframe_SetJsonValue constant_curves (Keyframe_JsonValue constant_curves k) k0) = None \<and>
      GetValue constant_curves
        (snd (Keyframe_SetJsonValue constant_curves (Keyframe_JsonValue constant_curves k) k0)) 1 =
        GetValue constant_curves k 1" for k k0
    by (simp add: constant_curves_def)
  have b: "fst (EffectBase_SetJsonValue constant_curves ?doc (base (Outline_blank constant_curves ()))) = None"
    by (simp add: constant_curves_def)
  have run: "SetJsonValue constant_curves ?doc (Outline_blank constant_curves ()) = (None, configured)"
    by (simp add: SetJsonValue_def seqS_def set_parent_data_def set_if_found_def Json_get_def
        isNull_def constant_curves_def Outline_blank_def configured_def)
  from json_round_trip [OF n rt eval_JsonValue b, of spreading_filters test_image]
  have "GetFrame constant_curves spreading_filters configured test_image 1 =
        GetFrame constant_curves spreading_filters configured test_image 1"
    by (simp add: run)
  with eval_JsonValue run show ?thesis by simp
qed

subsection \<open>C7: a document that does not parse\<close>

text \<open>
  C7. When \<^verbatim>\<open>stringToJson\<close> throws, \<open>SetJson\<close> throws \<^verbatim>\<open>InvalidJSON\<close> with the message
  \<^verbatim>\<open>JSON is invalid (missing keys or invalid data types)\<close> and the effect, its five curves
  and its \<^verbatim>\<open>EffectBase\<close> part, is as it was before the call.
\<close>

theorem SetJson_unparsable:
  assumes "stringToJson C val = Inl e" "is_std_exception e"
  shows "SetJson C val self =
           (Some (InvalidJSON ''JSON is invalid (missing keys or invalid data types)''), self)"
  using assms by (simp add: SetJson_def rethrow_std)

text \<open>The theorem for a parser that rejects the text \<^verbatim>\<open>{\<close>.\<close>

theorem SetJson_unparsable_witness:
  "stringToJson constant_curves ''{'' = Inl (InvalidJSON ''JSON could not be parsed (or is invalid)'') \<and>
   is_std_exception (InvalidJSON ''JSON could not be parsed (or is invalid)'') \<and>
   SetJson constant_curves ''{'' ((Outline_blank constant_curves ())\<lparr>width := 7\<rparr>) =
     (Some (InvalidJSON ''JSON is invalid (missing keys or invalid data types)''),
      (Outline_blank constant_curves ())\<lparr>width := 7\<rparr>)"
proof -
  have p: "stringToJson constant_curves ''{'' =
      Inl (InvalidJSON ''JSON could not be parsed (or is invalid)'')"
    by (simp add: constant_curves_def)
  have e: "is_std_exception (InvalidJSON ''JSON could not be parsed (or is invalid)'')"
    by (simp add: is_std_exception_def)
  from SetJson_unparsable [OF p e] p e show ?thesis by simp
qed

subsection \<open>C8: a document with absent keys\<close>

text \<open>
  C8. Let the document be an object that \<^verbatim>\<open>EffectBase::SetJsonValue\<close> accepts and whose
  members among the five keys, where present and not null, \<^verbatim>\<open>Keyframe::SetJsonValue\<close>
  accepts. Then \<open>SetJsonValue\<close> throws nothing, and each of the five curves is unchanged
  when its key is absent (or null) and is what \<^verbatim>\<open>Keyframe::SetJsonValue\<close> made of it from
  the member when the key is present.
\<close>

theorem partial_update:
  fixes C :: "('a, 'b) collaborators"
  assumes base_ok: "fst (EffectBase_SetJsonValue C (objectValue ms) (base self)) = None"
    and curves_ok: "\<And>key v k. map_of ms key = Some v \<Longrightarrow> v \<noteq> nullValue \<Longrightarrow>
          key \<in> {''width'', ''red'', ''green'', ''blue'', ''alpha''} \<Longrightarrow>
          fst (Keyframe_SetJsonValue C v k) = None"
    and run: "SetJsonValue C (objectValue ms) self = (r, self')"
  shows "r = None \<and>
    (\<forall>(key, curve) \<in> {(''width'', width), (''red'', red), (''green'', green), (''blue'', blue),
                        (''alpha'', alpha)}.
       case map_of ms key of
         None \<Rightarrow> curve self' = curve self
       | Some v \<Rightarrow>
           if isNull v then curve self' = curve self
           else curve self' = snd (Keyframe_SetJsonValue C v (curve self)))"
proof -
  have "SetJsonValue C (objectValue ms) self =
     (None, \<lparr>base = snd (EffectBase_SetJsonValue C (objectValue ms) (base self)),
             width = curve_after_load C ms ''width'' (width self),
             red = curve_after_load C ms ''red'' (red self),
             green = curve_after_load C ms ''green'' (green self),
             blue = curve_after_load C ms ''blue'' (blue self),
             alpha = curve_after_load C ms ''alpha'' (alpha self)\<rparr>)"
    using base_ok by (rule SetJsonValue_object) (erule (2) curves_ok)
  with run have r: "r = None"
    and s: "self' = \<lparr>base = snd (EffectBase_SetJsonValue C (objectValue ms) (base self)),
             width = curve_after_load C ms ''width'' (width self),
             red = curve_after_load C ms ''red'' (red self),
             green = curve_after_load C ms ''green'' (green self),
             blue = curve_after_load C ms ''blue'' (blue self),
             alpha = curve_after_load C ms ''alpha'' (alpha self)\<rparr>"
    by simp_all
  have cases: "case map_of ms key of
         None \<Rightarrow> curve self' = curve self
       | Some v \<Rightarrow>
           if isNull v then curve self' = curve self
           else curve self' = snd (Keyframe_SetJsonValue C v (curve self))"
    if "curve self' = curve_after_load C ms key (curve self)" for key and curve :: "('a, 'b) Outline \<Rightarrow> 'a"
    using curve_after_load_cases [where C = C and ms = ms and key = key and k = "curve self"]
    unfolding that .
  have "\<forall>(key, curve) \<in> {(''width'', width), (''red'', red), (''green'', green), (''blue'', blue),
                        (''alpha'', alpha)}.
       case map_of ms key of
         None \<Rightarrow> curve self' = curve self
       | Some v \<Rightarrow>
           if isNull v then curve self' = curve self
           else curve self' = snd (Keyframe_SetJsonValue C v (curve self))"
  proof (intro ballI, clarify)
    fix key and curve :: "('a, 'b) Outline \<Rightarrow> 'a"
    assume "(key, curve) \<in> {(''width'', width), (''red'', red), (''green'', green),
       (''blue'', blue), (''alpha'', alpha)}"
    then have "curve self' = curve_after_load C ms key (curve self)"
      by (auto simp: s)
    then show "case map_of ms key of
         None \<Rightarrow> curve self' = curve self
       | Some v \<Rightarrow>
           if isNull v then curve self' = curve self
           else curve self' = snd (Keyframe_SetJsonValue C v (curve self))"
      by (rule cases)
  qed
  with r show ?thesis by blast
qed

text \<open>The theorem for a document that has the keys \<^verbatim>\<open>red\<close> and \<^verbatim>\<open>alpha\<close> only.\<close>

theorem partial_update_witness:
  "SetJsonValue constant_curves (objectValue [(''red'', realValue 10), (''alpha'', realValue 128)])
      (Outline_blank constant_curves ()) =
     (None, \<lparr>base = (), width = 3, red = 10, green = 0, blue = 0, alpha = 128\<rparr>) \<and>
   width \<lparr>base = (), width = 3 :: real, red = 10, green = 0, blue = 0, alpha = 128\<rparr> =
     width (Outline_blank constant_curves ()) \<and>
   red \<lparr>base = (), width = 3 :: real, red = 10, green = 0, blue = 0, alpha = 128\<rparr> =
     snd (Keyframe_SetJsonValue constant_curves (realValue 10) (red (Outline_blank constant_curves ())))"
proof -
  let ?ms = "[(''red'', realValue 10), (''alpha'', realValue 128)]"
  let ?self = "Outline_blank constant_curves ()"
  let ?self' = "\<lparr>base = (), width = 3 :: real, red = 10, green = 0, blue = 0, alpha = 128\<rparr>"
  have base_ok: "fst (EffectBase_SetJsonValue constant_curves (objectValue ?ms) (base ?self)) = None"
    by (simp add: constant_curves_def)
  have curves_ok: "fst (Keyframe_SetJsonValue constant_curves v k) = None"
    if "map_of ?ms key = Some v" for key v k
    using that by (auto simp: constant_curves_def split: if_splits)
  have run: "SetJsonValue constant_curves (objectValue ?ms) ?self = (None, ?self')"
    by (simp add: SetJsonValue_def seqS_def set_parent_data_def set_if_found_def Json_get_def
        isNull_def constant_curves_def Outline_blank_def)
  from partial_update [OF base_ok curves_ok run]
  have "width ?self' = width ?self \<and>
        red ?self' = snd (Keyframe_SetJsonValue constant_curves (realValue 10) (red ?self))"
    by (simp add: isNull_def)
  with run show ?thesis by simp
qed

subsection \<open>C9: from the resolved scalars to integers\<close>

text \<open>
  C9 does not hold of the code. \<^verbatim>\<open>int redValue = red.GetValue(frame_number);\<close> discards
  the fraction: a red curve that resolves to 254.7 gives \<^verbatim>\<open>redValue\<close> 254, and the outline
  is drawn with red 254, not 255.
\<close>

theorem fraction_discarded:
  "GetValue constant_curves (red ((Outline_blank constant_curves ())\<lparr>red := 254.7\<rparr>)) 1 = 254.7 \<and>
   double_to_int (GetValue constant_curves (red ((Outline_blank constant_curves ())\<lparr>red := 254.7\<rparr>)) 1) =
     Inr 254 \<and>
   GetFrame constant_curves spreading_filters ((Outline_blank constant_curves ())\<lparr>red := 254.7\<rparr>)
       test_image 1 =
     Inr \<lparr>qwidth = 2, qheight = 2,
          bits = [(50, 50, 50, 128), (254, 0, 0, 255), (254, 0, 0, 255), (254, 0, 0, 255)]\<rparr>"
  by (simp add: GetFrame_def constant_curves_def Outline_blank_def double_to_int_def
      eval_alpha_mask eval_MaskDilator eval_EdgeRefiner eval_red_Compositor
      BGRACvMatToQImage_def ARGB32_to_RGBA8888_Premultiplied_def qPremultiply_def)

subsection \<open>C10: the masked write of the fill\<close>

text \<open>
  C10. \<^verbatim>\<open>solid_color_mat.copyTo(final_image, outline_mask)\<close> into the empty \<^verbatim>\<open>final_image\<close>
  writes, at every pixel where the mask is not zero, the whole fill
  \<^verbatim>\<open>(blueValue, greenValue, redValue, alphaValue)\<close> (each component saturated to a byte) and
  leaves zero elsewhere: the written pixel depends on whether the mask element is zero and
  on nothing else of its value. After the second copy the same holds of \<^verbatim>\<open>final_image\<close> at
  every pixel outside the alpha footprint.
\<close>

theorem fill_write_all_or_nothing:
  assumes ne: "\<not> Mat_empty cv_image"
    and wf: "Mat_wf cv_image" "Mat_wf alpha_mask" "Mat_wf outline_mask"
    and dims: "rows alpha_mask = rows cv_image" "cols alpha_mask = cols cv_image"
      "rows outline_mask = rows cv_image" "cols outline_mask = cols cv_image"
  shows "copyTo (Mat_Scalar (rows cv_image) (cols cv_image)
                  (blueValue, greenValue, redValue, alphaValue)) Mat_blank outline_mask =
           Inr \<lparr>rows = rows cv_image, cols = cols cv_image,
                elems = map (\<lambda>m. if m \<noteq> 0
                                 then (saturate_cast_uchar blueValue, saturate_cast_uchar greenValue,
                                       saturate_cast_uchar redValue, saturate_cast_uchar alphaValue)
                                 else zero4) (elems outline_mask)\<rparr> \<and>
         (\<exists>final_image.
            Compositor cv_image alpha_mask outline_mask
              (blueValue, greenValue, redValue, alphaValue) = Inr final_image \<and>
            (\<forall>i<length (elems cv_image).
               elems alpha_mask ! i = 0 \<longrightarrow>
                 elems final_image ! i =
                   (if elems outline_mask ! i \<noteq> 0
                    then (saturate_cast_uchar blueValue, saturate_cast_uchar greenValue,
                          saturate_cast_uchar redValue, saturate_cast_uchar alphaValue)
                    else zero4)))"
proof -
  let ?n = "rows cv_image * cols cv_image"
  let ?colour = "(blueValue, greenValue, redValue, alphaValue)"
  let ?fill = "(saturate_cast_uchar blueValue, saturate_cast_uchar greenValue,
                saturate_cast_uchar redValue, saturate_cast_uchar alphaValue)"
  let ?solid = "Mat_Scalar (rows cv_image) (cols cv_image) ?colour"
  let ?f1 = "\<lparr>rows = rows cv_image, cols = cols cv_image,
              elems = map (\<lambda>m. if m \<noteq> 0 then ?fill else zero4) (elems outline_mask)\<rparr>"
  have len: "length (elems outline_mask) = ?n"
    using wf dims by (simp add: Mat_wf_def)
  have n0: "?n \<noteq> 0"
    using ne by (simp add: Mat_empty_def)
  have one: "\<not> Mat_empty outline_mask" "\<not> Mat_empty alpha_mask"
    using ne dims by (simp_all add: Mat_empty_def)
  have "map (\<lambda>(m, s, d). if m \<noteq> 0 then s else d)
          (zip (elems outline_mask) (zip (replicate ?n ?fill) (replicate ?n zero4))) =
        map (\<lambda>m. if m \<noteq> 0 then ?fill else zero4) (elems outline_mask)"
    by (rule nth_equalityI) (simp_all add: len)
  then have first: "copyTo ?solid Mat_blank outline_mask = Inr ?f1"
    using one dims n0
    by (simp add: copyTo_masked Mat_Scalar_def scalarToRawData_def Mat_blank_def)
  obtain final_image where comp: "Compositor cv_image alpha_mask outline_mask ?colour = Inr final_image"
    using one dims by (simp add: Compositor_def Let_def first copyTo_masked)
  from Compositor_Inr [OF comp wf dims ne]
  have "\<forall>i<length (elems cv_image).
          elems alpha_mask ! i = 0 \<longrightarrow>
            elems final_image ! i = (if elems outline_mask ! i \<noteq> 0 then ?fill else zero4)"
    by (simp add: scalarToRawData_def)
  with first comp show ?thesis by blast
qed

text \<open>The theorem for a mask with the elements 1, 255, 0 and 7.\<close>

theorem fill_write_all_or_nothing_witness:
  "\<not> Mat_empty (QImageToBGRACvMat test_image) \<and>
   Mat_wf (QImageToBGRACvMat test_image) \<and>
   Mat_wf \<lparr>rows = 2, cols = 2, elems = [1, 255, 0, 7 :: uchar]\<rparr> \<and>
   copyTo (Mat_Scalar (rows (QImageToBGRACvMat test_image)) (cols (QImageToBGRACvMat test_image))
            (10, 20, 30, 200)) Mat_blank
      \<lparr>rows = 2, cols = 2, elems = [1, 255, 0, 7]\<rparr> =
     Inr \<lparr>rows = 2, cols = 2,
          elems = [(10, 20, 30, 200), (10, 20, 30, 200), (0, 0, 0, 0), (10, 20, 30, 200)]\<rparr>"
proof -
  let ?m = "\<lparr>rows = 2, cols = 2, elems = [1, 255, 0, 7 :: uchar]\<rparr>"
  let ?a = "\<lparr>rows = 2, cols = 2, elems = [128, 0, 0, 0 :: uchar]\<rparr>"
  let ?cv = "QImageToBGRACvMat test_image"
  have ne: "\<not> Mat_empty ?cv" by (simp add: Mat_empty_def QImageToBGRACvMat_def test_image_def)
  have wf: "Mat_wf ?cv" "Mat_wf ?a" "Mat_wf ?m"
    by (simp_all add: Mat_wf_def QImageToBGRACvMat_def test_image_def)
  have dims: "rows ?a = rows ?cv" "cols ?a = cols ?cv" "rows ?m = rows ?cv" "cols ?m = cols ?cv"
    by (simp_all add: QImageToBGRACvMat_def test_image_def)
  from fill_write_all_or_nothing [OF ne wf dims, of 10 20 30 200] ne wf
  show ?thesis
    by (simp add: saturate_cast_uchar_def zero4_def QImageToBGRACvMat_def test_image_def)
qed

end
